theory Spec2Isabelle
  imports Complex_Main "HOL-Library.Word"
begin

unbundle bit_operations_syntax

section \<open>The deterministic random stream (src/rng.ts)\<close>

text \<open>
  \<^verbatim>\<open>mulberry32(seed)\<close> closes over one variable \<^verbatim>\<open>t\<close>, a 32-bit integer.  The
  operators \<^verbatim>\<open>| 0\<close>, \<^verbatim>\<open>>>> 0\<close>, \<^verbatim>\<open>^\<close> and \<^verbatim>\<open>Math.imul\<close> all work on the 32-bit
  pattern of their operands, so \<^verbatim>\<open>t\<close> is a \<open>32 word\<close>: \<open>+\<close> and \<open>*\<close> wrap,
  \<^verbatim>\<open>>>>\<close> is \<open>drop_bit\<close>.  One call of the closure is \<open>mulberry32\<close> below: it
  returns the numerator \<open>u\<close> of the float \<open>u / 4294967296\<close> and the new \<^verbatim>\<open>t\<close>.
\<close>

type_synonym u32 = "32 word"

definition imul :: "u32 \<Rightarrow> u32 \<Rightarrow> u32" where
  "imul a b = a * b"

definition mulberry32 :: "u32 \<Rightarrow> u32 \<times> u32" where
  "mulberry32 t0 =
     (let t = t0 + 0x6d2b79f5;
          r = imul (t XOR drop_bit 15 t) (1 OR t);
          r = r XOR (r + imul (r XOR drop_bit 7 r) (61 OR r))
      in (r XOR drop_bit 14 r, t))"

text \<open>
  The state of an \<^verbatim>\<open>Rng\<close> instance is the \<^verbatim>\<open>t\<close> of its closure; every method takes
  it and returns it updated.  \<^verbatim>\<open>next()\<close> is a double in \<open>[0,1)\<close>, an exact multiple
  of \<open>2\<^sup>-\<^sup>3\<^sup>2\<close>, modelled as a real.
\<close>

definition Rng_new :: "int \<Rightarrow> u32" where
  "Rng_new seed = word_of_int seed"

definition Rng_next :: "u32 \<Rightarrow> real \<times> u32" where
  "Rng_next t = (let (u, t') = mulberry32 t in (real_of_int (uint u) / 4294967296, t'))"

text \<open>
  \<^verbatim>\<open>int(min, max)\<close> is \<^verbatim>\<open>Math.floor(this.next() * (max - min + 1)) + min\<close>.  The
  product is exact in double arithmetic as long as the width \<open>max - min + 1\<close> stays
  below \<open>2\<^sup>2\<^sup>1\<close> (a 32-bit numerator times the width fits the 53-bit mantissa),
  which covers every range the generators below ask for.
\<close>

definition Rng_int :: "u32 \<Rightarrow> int \<Rightarrow> int \<Rightarrow> int \<times> u32" where
  "Rng_int t mn mx =
     (let (x, t') = Rng_next t in (\<lfloor>x * real_of_int (mx - mn + 1)\<rfloor> + mn, t'))"

definition Rng_float :: "u32 \<Rightarrow> real \<Rightarrow> real \<Rightarrow> real \<times> u32" where
  "Rng_float t mn mx = (let (x, t') = Rng_next t in (x * (mx - mn) + mn, t'))"

definition Rng_bool :: "u32 \<Rightarrow> real \<Rightarrow> bool \<times> u32" where
  "Rng_bool t p = (let (x, t') = Rng_next t in (x < p, t'))"

datatype error =
    EmptyInput                  \<comment> \<open>\<^verbatim>\<open>Error("Cannot pick from an empty array")\<close>\<close>
  | InvalidRelationship string  \<comment> \<open>\<^verbatim>\<open>Error("Cannot have a relationship X<>X")\<close>\<close>
  | DefinitionNotFound          \<comment> \<open>\<^verbatim>\<open>assert(def, "No definition found")\<close>\<close>
  | TypeError                   \<comment> \<open>a property read on \<^verbatim>\<open>undefined\<close>\<close>

definition Rng_pick :: "u32 \<Rightarrow> 'a list \<Rightarrow> error + ('a \<times> u32)" where
  "Rng_pick t arr =
     (if length arr = 0 then Inl EmptyInput
      else (let (i, t') = Rng_int t 0 (int (length arr) - 1) in Inr (arr ! nat i, t')))"

fun Rng_hex :: "u32 \<Rightarrow> nat \<Rightarrow> string \<times> u32" where
  "Rng_hex t 0 = ([], t)"
| "Rng_hex t (Suc n) =
     (let (i, t1) = Rng_int t 0 15;
          (out, t2) = Rng_hex t1 n
      in (''0123456789abcdef'' ! nat i # out, t2))"


section \<open>Relationship codes (src/zigbee.ts, src/zigbee2mqtt.ts)\<close>

datatype ZigbeeRelationship =
    NeighborIsParent
  | NeighborIsAChild
  | NeighborIsASibling
  | NoneOfTheAbove
  | NeighborIsPreviousChild

text \<open>The \<^verbatim>\<open>type\<close> field of a device; \<^verbatim>\<open>RelationshipType\<close> is the same without
  \<^verbatim>\<open>GreenPower\<close>, a restriction TypeScript checks and the running code does not.\<close>

datatype device_type = Coordinator | Router | EndDevice | Unknown | GreenPower

definition relationship ::
  "u32 \<Rightarrow> ZigbeeRelationship list option \<Rightarrow> error + (ZigbeeRelationship \<times> u32)" where
  "relationship r limitedSet =
     Rng_pick r (case limitedSet of
                   Some l \<Rightarrow> l
                 | None \<Rightarrow> [NeighborIsParent, NeighborIsAChild, NeighborIsASibling, NoneOfTheAbove])"

definition relationshipByType ::
  "u32 \<Rightarrow> device_type \<Rightarrow> device_type \<Rightarrow> error + (ZigbeeRelationship \<times> u32)" where
  "relationshipByType r a b =
     (if a = Coordinator then
        (if b = Coordinator then
           Inl (InvalidRelationship ''Cannot have a relationship Coordinator<>Coordinator'')
         else if b = Router then
           (let (c, r1) = Rng_bool r 0.75
            in if c then Inr (NeighborIsASibling, r1)
               else relationship r1 (Some [NeighborIsAChild, NeighborIsASibling]))
         else Inr (NeighborIsAChild, r))
      else if b = Coordinator then
        (if a = Router then relationship r (Some [NeighborIsParent, NeighborIsASibling])
         else Inr (NeighborIsParent, r))
      else if a = Router then
        (if b = Router then
           (let (c, r1) = Rng_bool r 0.75
            in if c then Inr (NeighborIsASibling, r1)
               else relationship r1 (Some [NeighborIsParent, NeighborIsASibling]))
         else Inr (NeighborIsAChild, r))
      else if b = Router then Inr (NeighborIsParent, r)
      else if a = EndDevice then
        (if b = EndDevice then
           Inl (InvalidRelationship ''Cannot have a relationship EndDevice<>EndDevice'')
         else Inr (NeighborIsParent, r))
      else if b = EndDevice then Inr (NeighborIsAChild, r)
      else Inr (NoneOfTheAbove, r))"

text \<open>
  A relationship code returned for \<open>(a, b)\<close> says what the neighbour \<open>b\<close> is to
  \<open>a\<close> (the parameter \<^verbatim>\<open>b\<close> is documented as the "neighbor").  \<open>parent_side\<close> reads
  off which of the two the code makes the parent, if any.
\<close>

definition parent_side ::
  "ZigbeeRelationship \<Rightarrow> device_type \<Rightarrow> device_type \<Rightarrow> device_type option" where
  "parent_side rel a b =
     (case rel of NeighborIsParent \<Rightarrow> Some b | NeighborIsAChild \<Rightarrow> Some a | _ \<Rightarrow> None)"

section \<open>Extended PAN ids (src/zigbee.ts)\<close>

text \<open>
  \<^verbatim>\<open>Buffer.from(s, "hex")\<close> decodes two hexadecimal digits (either case) per byte and
  stops at the first pair that is not two digits; an odd last character is dropped.
  \<^verbatim>\<open>buf.toString("hex")\<close> writes two lowercase digits per byte.  \<^verbatim>\<open>Buffer.from(array)\<close>
  keeps the low eight bits of every number.
\<close>

definition hex_digit_value :: "char \<Rightarrow> nat option" where
  "hex_digit_value c =
     (let n = (of_char c :: nat)
      in if 48 \<le> n \<and> n \<le> 57 then Some (n - 48)
         else if 97 \<le> n \<and> n \<le> 102 then Some (n - 87)
         else if 65 \<le> n \<and> n \<le> 70 then Some (n - 55)
         else None)"

fun Buffer_from_hex :: "string \<Rightarrow> 8 word list" where
  "Buffer_from_hex (a # b # cs) =
     (case hex_digit_value a of
        None \<Rightarrow> []
      | Some h \<Rightarrow>
          (case hex_digit_value b of
             None \<Rightarrow> []
           | Some l \<Rightarrow> word_of_nat (16 * h + l) # Buffer_from_hex cs))"
| "Buffer_from_hex cs = []"

definition hex_digit :: "nat \<Rightarrow> char" where
  "hex_digit n = ''0123456789abcdef'' ! n"

definition Buffer_toString_hex :: "8 word list \<Rightarrow> string" where
  "Buffer_toString_hex bs =
     concat (map (\<lambda>b. [hex_digit (unat b div 16), hex_digit (unat b mod 16)]) bs)"

definition Buffer_from_array :: "int list \<Rightarrow> 8 word list" where
  "Buffer_from_array src = map word_of_int src"

definition Array_from_Buffer :: "8 word list \<Rightarrow> int list" where
  "Array_from_Buffer bs = map uint bs"

definition extendedPanIdToArray :: "string \<Rightarrow> int list" where
  "extendedPanIdToArray src = Array_from_Buffer (rev (Buffer_from_hex (drop 2 src)))"

definition extendedPanIdFromArray :: "int list \<Rightarrow> string" where
  "extendedPanIdFromArray src = ''0x'' @ Buffer_toString_hex (rev (Buffer_from_array src))"

definition lower_hex :: "char \<Rightarrow> bool" where
  "lower_hex c = (c \<in> set ''0123456789abcdef'')"

section \<open>Words and sentences (src/generics.ts)\<close>

definition word :: "u32 \<Rightarrow> error + (string \<times> u32)" where
  "word r =
     Rng_pick r [''alpha'', ''beta'', ''gamma'', ''delta'', ''omega'', ''nova'', ''terra'',
                 ''luna'', ''sol'', ''aqua'', ''zen'', ''ion'', ''neo'', ''flux'', ''quark'']"

text \<open>The loop \<^verbatim>\<open>for (let i = 0; i < n; i++) words.push(word(r))\<close>.\<close>

fun words_loop :: "nat \<Rightarrow> u32 \<Rightarrow> error + (string list \<times> u32)" where
  "words_loop 0 r = Inr ([], r)"
| "words_loop (Suc n) r =
     (case word r of
        Inl e \<Rightarrow> Inl e
      | Inr (w, r1) \<Rightarrow>
          (case words_loop n r1 of
             Inl e \<Rightarrow> Inl e
           | Inr (ws, r2) \<Rightarrow> Inr (w # ws, r2)))"

fun join :: "string \<Rightarrow> string list \<Rightarrow> string" where
  "join sep [] = []"
| "join sep [w] = w"
| "join sep (w # ws) = w @ sep @ join sep ws"

definition toUpperCase_char :: "char \<Rightarrow> char" where
  "toUpperCase_char c =
     (let n = (of_char c :: nat) in if 97 \<le> n \<and> n \<le> 122 then char_of (n - 32) else c)"

definition sentence :: "u32 \<Rightarrow> int \<Rightarrow> int \<Rightarrow> error + (string \<times> u32)" where
  "sentence r mn mx =
     (let (n, r1) = Rng_int r mn mx
      in case words_loop (nat n) r1 of
           Inl e \<Rightarrow> Inl e
         | Inr (ws, r2) \<Rightarrow>
             (let s = join '' '' ws
              in Inr ((case s of [] \<Rightarrow> [] | c # cs \<Rightarrow> toUpperCase_char c # cs) @ ''.'', r2)))"

section \<open>Capability descriptors and their values (src/zigbee2mqtt.ts)\<close>

text \<open>
  The values the synthesizer returns (\<^verbatim>\<open>unknown\<close> in the source).  Bounds and numbers
  are integers here; the catalog's bounds are JavaScript numbers.
\<close>

datatype jsval =
    JUndefined
  | JNumber int
  | JString string
  | JBoolean bool
  | JArray "jsval list"

text \<open>JavaScript truthiness, as the conditional operator applies it.\<close>

fun truthy :: "jsval \<Rightarrow> bool" where
  "truthy JUndefined = False"
| "truthy (JNumber n) = (n \<noteq> 0)"
| "truthy (JString s) = (s \<noteq> [])"
| "truthy (JBoolean b) = b"
| "truthy (JArray vs) = True"

datatype expose_type =
    T_binary | T_numeric | T_text | T_enum | T_list | T_composite
  | T_climate | T_cover | T_fan | T_lock | T_switch | T_light

text \<open>
  A capability descriptor (\<^verbatim>\<open>Expose\<close>, and \<^verbatim>\<open>Option\<close>, which has the same shape): the
  fields the code reads.  An absent optional field is \<open>None\<close>.  \<open>e_features\<close> is
  \<^verbatim>\<open>features\<close>: \<open>Some []\<close> is a present, empty array, which JavaScript takes as
  true.
\<close>

datatype expose = Expose
  (e_type: expose_type)
  (e_name: "string option")
  (e_property: "string option")
  (e_value_on: jsval)
  (e_value_off: jsval)
  (e_value_min: "int option")
  (e_value_max: "int option")
  (e_values: "jsval list")
  (e_length_min: "int option")
  (e_length_max: "int option")
  (e_item_type: "expose option")
  (e_features: "expose list option")








definition linkQuality :: "u32 \<Rightarrow> int \<times> u32" where
  "linkQuality r = Rng_int r 30 255"

text \<open>The elements of a colour gradient: \<^verbatim>\<open>Array.from({ length }, () => `#${r.hex(6)}`)\<close>.\<close>

fun gradient_items :: "nat \<Rightarrow> u32 \<Rightarrow> jsval list \<times> u32" where
  "gradient_items 0 r = ([], r)"
| "gradient_items (Suc n) r =
     (let (h, r1) = Rng_hex r 6;
          (vs, r2) = gradient_items n r1
      in (JString (''#'' @ h) # vs, r2))"

text \<open>
  \<open>exposeValue\<close>, with the elements of a list value
  (\<^verbatim>\<open>Array.from({ length }, () => exposeValue(r, expose.item_type))\<close>) as
  \<open>exposeValue_items\<close>; reading \<^verbatim>\<open>type\<close> of an absent \<^verbatim>\<open>item_type\<close> is a type error.
  In the numeric case the upper bound is the source's
  \<^verbatim>\<open>(expose.value_max ?? r.bool(0.75)) ? 255 : 1_000\<close>: the conditional tests the value
  of the \<^verbatim>\<open>??\<close> expression.
\<close>

function exposeValue :: "u32 \<Rightarrow> expose \<Rightarrow> error + (jsval \<times> u32)"
  and exposeValue_items :: "nat \<Rightarrow> u32 \<Rightarrow> expose option \<Rightarrow> error + (jsval list \<times> u32)" where
  "exposeValue r expose =
     (case e_type expose of
        T_binary \<Rightarrow> Rng_pick r [e_value_on expose, e_value_off expose]
      | T_numeric \<Rightarrow>
          (if e_name expose = Some ''linkquality'' then
             (let (n, r1) = linkQuality r in Inr (JNumber n, r1))
           else
             (let (c, r1) = (case e_value_max expose of
                               Some v \<Rightarrow> (JNumber v, r)
                             | None \<Rightarrow> (let (b, r1) = Rng_bool r 0.75 in (JBoolean b, r1)));
                  (n, r2) = Rng_int r1 (case e_value_min expose of Some v \<Rightarrow> v | None \<Rightarrow> 0)
                                       (if truthy c then 255 else 1000)
              in Inr (JNumber n, r2)))
      | T_text \<Rightarrow>
          (case sentence r 3 8 of Inl e \<Rightarrow> Inl e | Inr (s, r1) \<Rightarrow> Inr (JString s, r1))
      | T_enum \<Rightarrow> Rng_pick r (e_values expose)
      | T_list \<Rightarrow>
          (let (len, r1) = Rng_int r (case e_length_min expose of Some v \<Rightarrow> v | None \<Rightarrow> 0)
                                     (case e_length_max expose of Some v \<Rightarrow> v | None \<Rightarrow> 10)
           in if e_name expose = Some ''gradient'' then
                (let (vs, r2) = gradient_items (nat len) r1 in Inr (JArray vs, r2))
              else
                (case exposeValue_items (nat len) r1 (e_item_type expose) of
                   Inl e \<Rightarrow> Inl e
                 | Inr (vs, r2) \<Rightarrow> Inr (JArray vs, r2)))
      | T_climate \<Rightarrow> Inr (JUndefined, r)
      | T_cover \<Rightarrow> Inr (JUndefined, r)
      | T_fan \<Rightarrow> Inr (JUndefined, r)
      | T_lock \<Rightarrow> Inr (JUndefined, r)
      | T_switch \<Rightarrow> Inr (JUndefined, r)
      | T_light \<Rightarrow> Inr (JUndefined, r)
      | T_composite \<Rightarrow> Inr (JUndefined, r))"
| "exposeValue_items 0 r item = Inr ([], r)"
| "exposeValue_items (Suc n) r item =
     (case item of
        None \<Rightarrow> Inl TypeError
      | Some it \<Rightarrow>
          (case exposeValue r it of
             Inl e \<Rightarrow> Inl e
           | Inr (v, r1) \<Rightarrow>
               (case exposeValue_items n r1 item of
                  Inl e \<Rightarrow> Inl e
                | Inr (vs, r2) \<Rightarrow> Inr (v # vs, r2))))"
  by pat_completeness auto
termination
proof (relation "measures
    [\<lambda>x. case x of Inl (r, e) \<Rightarrow> size e
                  | Inr (n, r, item) \<Rightarrow> (case item of None \<Rightarrow> 0 | Some it \<Rightarrow> Suc (size it)),
     \<lambda>x. case x of Inl (r, e) \<Rightarrow> 0 | Inr (n, r, item) \<Rightarrow> n]", goal_cases)
  case 1
  show ?case by simp
next
  case (2 r expose len r1)
  show ?case by (cases expose; cases "e_item_type expose") simp_all
next
  case (3 n r item it)
  then show ?case by simp
next
  case (4 n r item it v r1)
  then show ?case by simp
qed

section \<open>Instances of the stream\<close>

text \<open>
  Every \<^verbatim>\<open>new Rng(seed)\<close> calls \<^verbatim>\<open>mulberry32(seed >>> 0)\<close>, which allocates a new
  variable \<^verbatim>\<open>t\<close> for the closure it returns.  The store holds these variables in the
  order of their allocation; an instance is the position of its variable.  A method call
  reads and writes the variable of the instance it is called on.
\<close>

type_synonym rng_store = "u32 list"
type_synonym rng_ref = nat

definition Rng_constructor :: "int \<Rightarrow> rng_store \<Rightarrow> rng_ref \<times> rng_store" where
  "Rng_constructor seed st = (length st, st @ [Rng_new seed])"

datatype 'a rng_call =
    Call_int int int
  | Call_float real real
  | Call_bool real
  | Call_pick "'a list"
  | Call_hex nat

datatype 'a rng_result =
    Res_int int
  | Res_float real
  | Res_bool bool
  | Res_pick 'a
  | Res_hex string
  | Res_error error

fun Rng_call :: "'a rng_call \<Rightarrow> u32 \<Rightarrow> 'a rng_result \<times> u32" where
  "Rng_call (Call_int mn mx) t = (let (n, t') = Rng_int t mn mx in (Res_int n, t'))"
| "Rng_call (Call_float mn mx) t = (let (x, t') = Rng_float t mn mx in (Res_float x, t'))"
| "Rng_call (Call_bool p) t = (let (b, t') = Rng_bool t p in (Res_bool b, t'))"
| "Rng_call (Call_pick arr) t =
     (case Rng_pick t arr of Inl e \<Rightarrow> (Res_error e, t) | Inr (v, t') \<Rightarrow> (Res_pick v, t'))"
| "Rng_call (Call_hex len) t = (let (h, t') = Rng_hex t len in (Res_hex h, t'))"

definition invoke :: "rng_ref \<Rightarrow> 'a rng_call \<Rightarrow> rng_store \<Rightarrow> 'a rng_result \<times> rng_store" where
  "invoke i c st = (let (res, t') = Rng_call c (st ! i) in (res, st[i := t']))"

text \<open>A sequence of calls on one instance, and a sequence of calls on any instances, in
  program order; each returns the results in that order.\<close>

fun invoke_all ::
  "rng_ref \<Rightarrow> 'a rng_call list \<Rightarrow> rng_store \<Rightarrow> 'a rng_result list \<times> rng_store" where
  "invoke_all i [] st = ([], st)"
| "invoke_all i (c # cs) st =
     (let (res, st1) = invoke i c st;
          (ress, st2) = invoke_all i cs st1
      in (res # ress, st2))"

fun run_calls ::
  "(rng_ref \<times> 'a rng_call) list \<Rightarrow> rng_store \<Rightarrow> (rng_ref \<times> 'a rng_result) list \<times> rng_store" where
  "run_calls [] st = ([], st)"
| "run_calls ((i, c) # ics) st =
     (let (res, st1) = invoke i c st;
          (ress, st2) = run_calls ics st1
      in ((i, res) # ress, st2))"

definition of_instance :: "rng_ref \<Rightarrow> (rng_ref \<times> 'b) list \<Rightarrow> 'b list" where
  "of_instance i xs = map snd (filter (\<lambda>x. fst x = i) xs)"

section \<open>Generators over the stream\<close>

text \<open>
  A generator is a call that draws from the stream.  Its outcome from a stream state is
  \<open>None\<close> when the call never returns (a re-draw loop that finds no admissible
  value), \<open>Some (Inl e)\<close> when it throws \<open>e\<close>, and \<open>Some (Inr (v, r'))\<close> when it
  returns \<open>v\<close> and leaves the stream in state \<open>r'\<close>.  \<open>gbind\<close> is sequencing in
  program order.
\<close>

type_synonym 'a gen = "u32 \<Rightarrow> (error + ('a \<times> u32)) option"

definition gret :: "'a \<Rightarrow> 'a gen" where
  "gret x = (\<lambda>r. Some (Inr (x, r)))"

definition gthrow :: "error \<Rightarrow> 'a gen" where
  "gthrow e = (\<lambda>r. Some (Inl e))"

definition gbind :: "'a gen \<Rightarrow> ('a \<Rightarrow> 'b gen) \<Rightarrow> 'b gen" where
  "gbind m f =
     (\<lambda>r. case m r of
            None \<Rightarrow> None
          | Some (Inl e) \<Rightarrow> Some (Inl e)
          | Some (Inr (x, r1)) \<Rightarrow> f x r1)"

text \<open>A call that always returns, and a call that returns or throws.\<close>

definition gdraw :: "(u32 \<Rightarrow> 'a \<times> u32) \<Rightarrow> 'a gen" where
  "gdraw f = (\<lambda>r. Some (Inr (f r)))"

definition gtry :: "(u32 \<Rightarrow> error + ('a \<times> u32)) \<Rightarrow> 'a gen" where
  "gtry f = (\<lambda>r. Some (f r))"

text \<open>
  The counting loop \<^verbatim>\<open>for (let i = 0; i < n; i++) list.push(body)\<close>, also
  \<^verbatim>\<open>Array.from({ length: n }, body)\<close>, and \<^verbatim>\<open>array.map(body)\<close>.
\<close>

fun gen_for :: "nat \<Rightarrow> nat \<Rightarrow> (nat \<Rightarrow> 'a gen) \<Rightarrow> 'a list gen" where
  "gen_for i 0 body = gret []"
| "gen_for i (Suc n) body =
     gbind (body i) (\<lambda>x. gbind (gen_for (Suc i) n body) (\<lambda>xs. gret (x # xs)))"

fun gen_map :: "('a \<Rightarrow> 'b gen) \<Rightarrow> 'a list \<Rightarrow> 'b list gen" where
  "gen_map body [] = gret []"
| "gen_map body (x # xs) =
     gbind (body x) (\<lambda>y. gbind (gen_map body xs) (\<lambda>ys. gret (y # ys)))"

section \<open>Strings and numbers\<close>

text \<open>\<^verbatim>\<open>String(n)\<close> of an integer, \<^verbatim>\<open>padStart(2, "0")\<close>, \<^verbatim>\<open>startsWith\<close> and
  \<^verbatim>\<open>toLowerCase\<close> (on ASCII letters).\<close>

fun string_of_nat :: "nat \<Rightarrow> string" where
  "string_of_nat n =
     (if n < 10 then [''0123456789'' ! n]
      else string_of_nat (n div 10) @ [''0123456789'' ! (n mod 10)])"

declare string_of_nat.simps [simp del]

definition String_of_int :: "int \<Rightarrow> string" where
  "String_of_int n = (if n < 0 then ''-'' @ string_of_nat (nat (- n)) else string_of_nat (nat n))"

definition padStart2 :: "string \<Rightarrow> string" where
  "padStart2 s = replicate (2 - length s) CHR ''0'' @ s"

definition startsWith :: "string \<Rightarrow> string \<Rightarrow> bool" where
  "startsWith s p = (take (length p) s = p)"

definition toLowerCase :: "string \<Rightarrow> string" where
  "toLowerCase s =
     map (\<lambda>c. let n = (of_char c :: nat) in if 65 \<le> n \<and> n \<le> 90 then char_of (n + 32) else c) s"

text \<open>Adding to a \<^verbatim>\<open>Set\<close>, which keeps the order of first insertion.\<close>

definition set_add :: "'a \<Rightarrow> 'a list \<Rightarrow> 'a list" where
  "set_add x xs = (if x \<in> set xs then xs else xs @ [x])"

text \<open>
  An object with numeric keys (\<^verbatim>\<open>Record<number, T>\<close>) as an association list:
  assignment, and \<^verbatim>\<open>Object.keys(o).map(Number)\<close>, which lists integer keys in
  ascending order.
\<close>

fun record_set :: "int \<Rightarrow> 'v \<Rightarrow> (int \<times> 'v) list \<Rightarrow> (int \<times> 'v) list" where
  "record_set k v [] = [(k, v)]"
| "record_set k v ((k', v') # kvs) =
     (if k = k' then (k, v) # kvs else (k', v') # record_set k v kvs)"

definition Object_keys :: "(int \<times> 'v) list \<Rightarrow> int list" where
  "Object_keys kvs = sort (map fst kvs)"

text \<open>\<^verbatim>\<open>array.slice(0, k)\<close>; a negative \<^verbatim>\<open>k\<close> counts from the end.\<close>

definition slice0 :: "int \<Rightarrow> 'a list \<Rightarrow> 'a list" where
  "slice0 k xs = (if k < 0 then take (nat (int (length xs) + k)) xs else take (nat k) xs)"

section \<open>The catalog and the other imported values\<close>

text \<open>
  A catalog entry (\<^verbatim>\<open>Definition\<close> of zigbee-herdsman-converters), with the fields the
  code reads.  \<open>def_exposes\<close> is the descriptor list, or the value of the descriptor
  function at the dummy device.  \<open>def_fingerprint\<close> lists the \<^verbatim>\<open>modelID\<close> of each
  fingerprint.  \<open>def_endpoint\<close> is the entry's endpoint hook: it is handed a stub device
  whose \<^verbatim>\<open>getEndpoint\<close> draws a boolean, so it is a function of the stream.
\<close>

record Definition =
  def_model :: string
  def_vendor :: string
  def_description :: string
  def_whiteLabel :: "(string \<times> string) list option"
  def_fingerprint :: "string option list option"
  def_exposes :: "expose list"
  def_options :: "expose list option"
  def_ota :: bool
  def_endpoint :: "(u32 \<Rightarrow> (string \<times> int) list \<times> u32) option"

text \<open>
  What the code imports and does not define: the prepared catalog, the table of ZCL
  clusters (name and id, in key order), the two endpoint constants of zigbee-herdsman,
  and the clock.
\<close>

record env =
  zhcDefinitions :: "Definition list"
  Clusters :: "(string \<times> int) list"
  HA_ENDPOINT :: int
  GP_ENDPOINT :: int
  Date_now :: int

definition zhcGpDefinitions :: "env \<Rightarrow> Definition list" where
  "zhcGpDefinitions env =
     filter (\<lambda>definition'.
               case def_fingerprint definition' of
                 None \<Rightarrow> False
               | Some fps \<Rightarrow>
                   list_ex (\<lambda>fp. case fp of None \<Rightarrow> False
                                  | Some modelID \<Rightarrow> startsWith modelID ''GreenPower_'') fps)
            (zhcDefinitions env)"

section \<open>Identifiers (src/zigbee.ts)\<close>

definition eui64 :: "u32 \<Rightarrow> string \<times> u32" where
  "eui64 r = (let (h, r1) = Rng_hex r 16 in (''0x'' @ h, r1))"

definition networkAddress :: "u32 \<Rightarrow> int \<times> u32" where
  "networkAddress r = Rng_int r 0x0001 0xfff7"

definition panId :: "u32 \<Rightarrow> int \<times> u32" where
  "panId r = Rng_int r 0x0001 0xfffe"

definition extendedPanId :: "u32 \<Rightarrow> string \<times> u32" where
  "extendedPanId r = (let (h, r1) = Rng_hex r 16 in (''0x'' @ h, r1))"

text \<open>
  \<open>clusterName\<close> picks a name of the cluster table and picks again while the cluster
  is manufacturer-specific or is \<^verbatim>\<open>greenPower\<close>.
\<close>

partial_function (option) clusterName_loop ::
  "env \<Rightarrow> string \<Rightarrow> u32 \<Rightarrow> (error + (string \<times> u32)) option" where
  "clusterName_loop env picked r =
     (case map_of (Clusters env) picked of
        None \<Rightarrow> Some (Inl TypeError)
      | Some ID \<Rightarrow>
          if ID \<ge> 0xfc00 \<or> picked = ''greenPower'' then
            (case Rng_pick r (map fst (Clusters env)) of
               Inl e \<Rightarrow> Some (Inl e)
             | Inr (picked', r1) \<Rightarrow> clusterName_loop env picked' r1)
          else Some (Inr (picked, r)))"

definition clusterName :: "env \<Rightarrow> string gen" where
  "clusterName env =
     gbind (gtry (\<lambda>r. Rng_pick r (map fst (Clusters env)))) (clusterName_loop env)"

datatype RoutingTableStatus =
  ACTIVE | DISCOVERY_UNDERWAY | DISCOVERY_FAILED | INACTIVE | VALIDATION_UNDERWAY

definition routingTableEntryStatus :: "RoutingTableStatus gen" where
  "routingTableEntryStatus =
     gbind (gdraw (\<lambda>r. Rng_bool r 0.85)) (\<lambda>c.
       if c then gret ACTIVE
       else gtry (\<lambda>r. Rng_pick r [ACTIVE, DISCOVERY_UNDERWAY, DISCOVERY_FAILED, INACTIVE,
                                    VALIDATION_UNDERWAY]))"

section \<open>Devices, endpoints and groups (src/zigbee2mqtt.ts)\<close>

datatype InterviewState = Pending | InProgress | Successful | Failed

record Zigbee2MQTTScene =
  scene_id :: int
  scene_name :: string

datatype binding_target =
    Target_endpoint string int  \<comment> \<open>\<^verbatim>\<open>{ type: "endpoint", ieee_address, endpoint }\<close>\<close>
  | Target_group int            \<comment> \<open>\<^verbatim>\<open>{ type: "group", id }\<close>\<close>

record Zigbee2MQTTDeviceEndpointBinding =
  binding_cluster :: string
  binding_target :: binding_target

record Zigbee2MQTTDeviceEndpointConfiguredReporting =
  reporting_cluster :: string
  reporting_attribute :: jsval
  minimum_report_interval :: int
  maximum_report_interval :: int
  reportable_change :: int

record Zigbee2MQTTDeviceEndpoint =
  ep_name :: "string option"
  ep_bindings :: "Zigbee2MQTTDeviceEndpointBinding list"
  ep_configured_reportings :: "Zigbee2MQTTDeviceEndpointConfiguredReporting list"
  ep_clusters_input :: "string list"
  ep_clusters_output :: "string list"
  ep_scenes :: "Zigbee2MQTTScene list"

record Zigbee2MQTTDeviceDefinition =
  payload_source :: string
  payload_model :: string
  payload_vendor :: string
  payload_description :: string
  payload_exposes :: "expose list"
  payload_supports_ota :: bool
  payload_options :: "expose list"

record Zigbee2MQTTDevice =
  ieee_address :: string
  dev_type :: device_type
  network_address :: int
  supported :: bool
  friendly_name :: string
  disabled :: bool
  dev_description :: "string option"
  dev_definition :: "Zigbee2MQTTDeviceDefinition option"
  power_source :: "string option"
  software_build_id :: "string option"
  date_code :: "string option"
  model_id :: "string option"
  interviewing :: bool
  interview_completed :: bool
  interview_state :: InterviewState
  manufacturer :: "string option"
  dev_endpoints :: "(int \<times> Zigbee2MQTTDeviceEndpoint) list"

record Zigbee2MQTTGroupMember =
  member_ieee_address :: string
  member_endpoint :: int

record Zigbee2MQTTGroup =
  group_id :: int
  group_friendly_name :: string
  group_description :: "string option"
  group_scenes :: "Zigbee2MQTTScene list"
  group_members :: "Zigbee2MQTTGroupMember list"

definition powerSource :: "u32 \<Rightarrow> error + (string \<times> u32)" where
  "powerSource r =
     Rng_pick r [''Unknown'', ''Mains (single phase)'', ''Mains (3 phase)'', ''Battery'',
                 ''DC Source'', ''Emergency mains constantly powered'',
                 ''Emergency mains and transfer switch'']"

definition deviceType :: "u32 \<Rightarrow> error + (device_type \<times> u32)" where
  "deviceType r = Rng_pick r [Router, EndDevice, Unknown, GreenPower]"

definition bindings :: "env \<Rightarrow> int \<Rightarrow> Zigbee2MQTTDeviceEndpointBinding list gen" where
  "bindings env count =
     (if count \<le> 0 then gret []
      else gen_for 0 (nat count) (\<lambda>i.
        gbind (gdraw (\<lambda>r. Rng_bool r 0.85)) (\<lambda>c.
          if c then
            gbind (clusterName env) (\<lambda>cluster.
            gbind (gdraw eui64) (\<lambda>addr.
            gbind (gdraw (\<lambda>r. Rng_int r 1 4)) (\<lambda>ep.
            gret \<lparr>binding_cluster = cluster, binding_target = Target_endpoint addr ep\<rparr>)))
          else
            gbind (clusterName env) (\<lambda>cluster.
            gbind (gdraw (\<lambda>r. Rng_int r 1 32)) (\<lambda>gid.
            gret \<lparr>binding_cluster = cluster, binding_target = Target_group gid\<rparr>)))))"

definition reporting ::
  "env \<Rightarrow> int \<Rightarrow> Zigbee2MQTTDeviceEndpointConfiguredReporting list gen" where
  "reporting env count =
     (if count \<le> 0 then gret []
      else gen_for 0 (nat count) (\<lambda>i.
        gbind (clusterName env) (\<lambda>cluster.
        gbind (gdraw (\<lambda>r. Rng_bool r 0.5)) (\<lambda>c.
        gbind (if c then gret (JString ''onOff'')
               else gbind (gdraw (\<lambda>r. Rng_int r 0 65535)) (\<lambda>n. gret (JNumber n))) (\<lambda>attribute.
        gbind (gdraw (\<lambda>r. Rng_int r 1 30)) (\<lambda>mn.
        gbind (gdraw (\<lambda>r. Rng_int r 60 3600)) (\<lambda>mx.
        gbind (gdraw (\<lambda>r. Rng_int r 0 10)) (\<lambda>change.
        gret \<lparr>reporting_cluster = cluster, reporting_attribute = attribute,
              minimum_report_interval = mn, maximum_report_interval = mx,
              reportable_change = change\<rparr>))))))))"

text \<open>The scene ids of an endpoint: drawn again while already used on this endpoint.\<close>

partial_function (option) scene_id_loop ::
  "int list \<Rightarrow> int \<Rightarrow> u32 \<Rightarrow> (error + (int \<times> u32)) option" where
  "scene_id_loop addedScenes id' r =
     (if id' \<in> set addedScenes then
        (case Rng_int r 1 255 of (id2, r1) \<Rightarrow> scene_id_loop addedScenes id2 r1)
      else Some (Inr (id', r)))"

fun scenes_loop ::
  "nat \<Rightarrow> nat \<Rightarrow> Zigbee2MQTTScene list \<Rightarrow> int list \<Rightarrow> Zigbee2MQTTScene list gen" where
  "scenes_loop i 0 scenes addedScenes = gret scenes"
| "scenes_loop i (Suc n) scenes addedScenes =
     gbind (gdraw (\<lambda>r. Rng_int r 1 255)) (\<lambda>id0.
     gbind (scene_id_loop addedScenes id0) (\<lambda>id'.
     scenes_loop (Suc i) n
       (scenes @ [\<lparr>scene_id = id', scene_name = ''scene_'' @ String_of_int (int i + 1)\<rparr>])
       (addedScenes @ [id'])))"

text \<open>
  \<open>endpoint\<close>: an absent \<^verbatim>\<open>name\<close>, \<^verbatim>\<open>maxBindingsCount\<close> or \<^verbatim>\<open>maxReportingCount\<close>
  (\<open>None\<close>) takes the parameter's default, and the default of \<^verbatim>\<open>name\<close> draws from
  the stream.
\<close>

definition endpoint ::
  "env \<Rightarrow> int \<Rightarrow> string option \<Rightarrow> int option \<Rightarrow> int option \<Rightarrow> Zigbee2MQTTDeviceEndpoint gen" where
  "endpoint env id' name maxBindingsCount maxReportingCount =
     gbind (case name of
              Some n \<Rightarrow> gret (Some n)
            | None \<Rightarrow>
                gbind (gdraw (\<lambda>r. Rng_bool r 0.4)) (\<lambda>c.
                  if c then
                    gbind (gtry word) (\<lambda>w.
                    gbind (gdraw (\<lambda>r. Rng_int r 1 9)) (\<lambda>k.
                    gret (Some (w @ ''_'' @ String_of_int k))))
                  else gret None)) (\<lambda>name.
     gbind (gdraw (\<lambda>r. Rng_int r 1 5)) (\<lambda>inCount.
     gbind (gen_for 0 (nat inCount) (\<lambda>i. clusterName env)) (\<lambda>ins.
     gbind (gdraw (\<lambda>r. Rng_int r 0 3)) (\<lambda>outCount.
     gbind (gen_for 0 (nat outCount) (\<lambda>i. clusterName env)) (\<lambda>outs.
     gbind (gdraw (\<lambda>r. Rng_bool r 0.75)) (\<lambda>c.
     gbind (if c then gret 0 else gdraw (\<lambda>r. Rng_int r 0 3)) (\<lambda>scenesCount.
     gbind (scenes_loop 0 (nat scenesCount) [] []) (\<lambda>scenes.
     gbind (gdraw (\<lambda>r. Rng_int r 0 (case maxBindingsCount of Some m \<Rightarrow> m | None \<Rightarrow> 3))) (\<lambda>bc.
     gbind (bindings env bc) (\<lambda>bs.
     gbind (gdraw (\<lambda>r. Rng_int r 0 (case maxReportingCount of Some m \<Rightarrow> m | None \<Rightarrow> 5))) (\<lambda>rc.
     gbind (reporting env rc) (\<lambda>rs.
     gret \<lparr>ep_name = name, ep_bindings = bs, ep_configured_reportings = rs,
           ep_clusters_input =
             fold set_add ins (if id' = GP_ENDPOINT env then [''greenPower''] else [''genBasic'']),
           ep_clusters_output =
             fold set_add outs (if id' = GP_ENDPOINT env then [''greenPower''] else []),
           ep_scenes = scenes\<rparr>))))))))))))"

text \<open>\<open>endpoints\<close>: the entries asked for, in the order of \<^verbatim>\<open>ensurePresent\<close>, then
  random ones, each id drawn again while it is taken.\<close>

fun ensurePresent_loop ::
  "env \<Rightarrow> (string \<times> int) list \<Rightarrow> int option \<Rightarrow> int option
     \<Rightarrow> (int \<times> Zigbee2MQTTDeviceEndpoint) list \<Rightarrow> (int \<times> Zigbee2MQTTDeviceEndpoint) list gen" where
  "ensurePresent_loop env [] maxBindingsCount maxReportingCount eps = gret eps"
| "ensurePresent_loop env ((name, id') # rest) maxBindingsCount maxReportingCount eps =
     gbind (endpoint env id' (if startsWith name ''rnd_'' then None else Some name)
              maxBindingsCount maxReportingCount) (\<lambda>ep.
     ensurePresent_loop env rest maxBindingsCount maxReportingCount (record_set id' ep eps))"

partial_function (option) endpoint_id_loop ::
  "(int \<times> Zigbee2MQTTDeviceEndpoint) list \<Rightarrow> int \<Rightarrow> u32 \<Rightarrow> (error + (int \<times> u32)) option" where
  "endpoint_id_loop eps ep r =
     (if map_of eps ep \<noteq> None then
        (case Rng_int r 0x01 0xfe of (ep', r1) \<Rightarrow> endpoint_id_loop eps ep' r1)
      else Some (Inr (ep, r)))"

fun random_endpoints_loop ::
  "env \<Rightarrow> nat \<Rightarrow> int option \<Rightarrow> int option
     \<Rightarrow> (int \<times> Zigbee2MQTTDeviceEndpoint) list \<Rightarrow> (int \<times> Zigbee2MQTTDeviceEndpoint) list gen" where
  "random_endpoints_loop env 0 maxBindingsCount maxReportingCount eps = gret eps"
| "random_endpoints_loop env (Suc n) maxBindingsCount maxReportingCount eps =
     gbind (gdraw (\<lambda>r. Rng_int r 0x01 0xfe)) (\<lambda>ep0.
     gbind (endpoint_id_loop eps ep0) (\<lambda>ep.
     gbind (endpoint env ep None maxBindingsCount maxReportingCount) (\<lambda>e.
     random_endpoints_loop env n maxBindingsCount maxReportingCount (record_set ep e eps))))"

definition endpoints ::
  "env \<Rightarrow> (string \<times> int) list option \<Rightarrow> int option \<Rightarrow> int option
     \<Rightarrow> (int \<times> Zigbee2MQTTDeviceEndpoint) list gen" where
  "endpoints env ensurePresent maxBindingsCount maxReportingCount =
     gbind (case ensurePresent of
              None \<Rightarrow> gret ([], False)
            | Some entries \<Rightarrow>
                gbind (ensurePresent_loop env entries maxBindingsCount maxReportingCount [])
                  (\<lambda>eps. gret (eps, entries \<noteq> []))) (\<lambda>(eps, added).
     gbind (gdraw (\<lambda>r. Rng_int r (if added then 0 else 1) (if added then 1 else 3))) (\<lambda>epCount.
     random_endpoints_loop env (nat epCount) maxBindingsCount maxReportingCount eps))"

text \<open>The descriptor for link quality that every device exposes first.\<close>

definition LINKQUALITY :: expose where
  "LINKQUALITY =
     Expose T_numeric (Some ''linkquality'') (Some ''linkquality'') JUndefined JUndefined
       (Some 0) (Some 255) [] None None None None"

definition deviceExposes :: "Definition \<Rightarrow> expose list" where
  "deviceExposes definition' = LINKQUALITY # def_exposes definition'"

definition deviceDefinitionPayload :: "Definition \<Rightarrow> Zigbee2MQTTDeviceDefinition" where
  "deviceDefinitionPayload definition' =
     \<lparr>payload_source = ''native'',
      payload_model = def_model definition',
      payload_vendor = def_vendor definition',
      payload_description = def_description definition',
      payload_exposes = deviceExposes definition',
      payload_supports_ota = def_ota definition',
      payload_options = (case def_options definition' of Some os \<Rightarrow> os | None \<Rightarrow> [])\<rparr>"

definition findDefinitionByModel :: "env \<Rightarrow> string \<Rightarrow> Definition option" where
  "findDefinitionByModel env definitionModel =
     (let lcModel = toLowerCase definitionModel
      in find (\<lambda>definition'.
                 toLowerCase (def_model definition') = lcModel
                 \<or> (case def_whiteLabel definition' of
                       None \<Rightarrow> False
                     | Some wl \<Rightarrow> list_ex (\<lambda>(vendor, model). toLowerCase model = lcModel) wl))
              (zhcDefinitions env))"

definition definitionEndpoints :: "Definition \<Rightarrow> (string \<times> int) list option gen" where
  "definitionEndpoints definition' =
     (case def_endpoint definition' of
        None \<Rightarrow> gret None
      | Some hook \<Rightarrow> gbind (gdraw hook) (\<lambda>eps. gret (Some eps)))"

definition friendlyName :: "string gen" where
  "friendlyName =
     gbind (gdraw (\<lambda>r. Rng_bool r 0.5)) (\<lambda>c.
     gbind (gtry word) (\<lambda>w1.
     gbind (gdraw (\<lambda>r. Rng_int r 1000 9999)) (\<lambda>n.
     gbind (gtry word) (\<lambda>w2.
     gret (let sep = (if c then ''_'' else '' '') in w1 @ sep @ String_of_int n @ sep @ w2)))))"

definition coordinator :: "env \<Rightarrow> Zigbee2MQTTDevice gen" where
  "coordinator env =
     gbind (gdraw eui64) (\<lambda>addr.
     gbind (endpoints env (Some [(''rnd_1'', HA_ENDPOINT env), (''rnd_2'', GP_ENDPOINT env)])
              (Some 0) (Some 0)) (\<lambda>eps.
     gret \<lparr>ieee_address = addr,
           dev_type = Coordinator,
           network_address = 0x0000,
           supported = True,
           friendly_name = ''Coordinator'',
           disabled = False,
           dev_description = None,
           dev_definition = None,
           power_source = None,
           software_build_id = None,
           date_code = None,
           model_id = None,
           interviewing = False,
           interview_completed = True,
           interview_state = Successful,
           manufacturer = None,
           dev_endpoints = eps\<rparr>))"

text \<open>
  \<open>device\<close>: \<open>type\<close> and \<open>model\<close> are the optional arguments.  The draws are in the
  order of the source: the type, the catalog entry, the interview state, and then the
  fields of the returned object from top to bottom.  The assertion on the catalog entry
  comes after the interview state is drawn.
\<close>

definition device ::
  "env \<Rightarrow> device_type option \<Rightarrow> string option \<Rightarrow> Zigbee2MQTTDevice gen" where
  "device env type model =
     gbind (case type of Some t \<Rightarrow> gret t | None \<Rightarrow> gtry deviceType) (\<lambda>typeOrR.
     gbind (case model of
              Some (c # cs) \<Rightarrow> gret (findDefinitionByModel env (c # cs))
            | _ \<Rightarrow>
                gbind (gtry (\<lambda>r. Rng_pick r (if typeOrR = GreenPower then zhcGpDefinitions env
                                               else zhcDefinitions env)))
                  (\<lambda>d. gret (Some d))) (\<lambda>def.
     gbind (gdraw (\<lambda>r. Rng_bool r 0.9)) (\<lambda>c.
     gbind (if c then gret Successful
            else gtry (\<lambda>r. Rng_pick r [Pending, InProgress, Successful, Failed])) (\<lambda>interviewState.
     case def of
       None \<Rightarrow> gthrow DefinitionNotFound
     | Some def \<Rightarrow>
     gbind (gdraw eui64) (\<lambda>addr.
     gbind (gdraw (\<lambda>r. Rng_int r 1 0xfff7)) (\<lambda>nwk.
     gbind friendlyName (\<lambda>fname.
     gbind (gdraw (\<lambda>r. Rng_bool r 0.05)) (\<lambda>dis.
     gbind (gdraw (\<lambda>r. Rng_bool r 0.25)) (\<lambda>c.
     gbind (if c then gbind (gtry (\<lambda>r. sentence r 3 8)) (\<lambda>s. gret (Some s))
            else gret None) (\<lambda>descr.
     gbind (if typeOrR = GreenPower then gret ''Unknown'' else gtry powerSource) (\<lambda>power.
     gbind (gdraw (\<lambda>r. Rng_int r 1 3)) (\<lambda>v1.
     gbind (gdraw (\<lambda>r. Rng_int r 0 9)) (\<lambda>v2.
     gbind (gdraw (\<lambda>r. Rng_int r 0 99)) (\<lambda>v3.
     gbind (gdraw (\<lambda>r. Rng_int r 2019 2025)) (\<lambda>year.
     gbind (gdraw (\<lambda>r. Rng_int r 1 12)) (\<lambda>month.
     gbind (gdraw (\<lambda>r. Rng_int r 1 28)) (\<lambda>day.
     gbind (definitionEndpoints def) (\<lambda>defEps.
     gbind (case defEps of
              Some eps \<Rightarrow> gret (Some eps)
            | None \<Rightarrow>
                gbind (gdraw (\<lambda>r. Rng_bool r 0.95)) (\<lambda>c.
                  gret (if c then Some [(''rnd_1'', HA_ENDPOINT env)] else None))) (\<lambda>ensurePresent.
     gbind (endpoints env ensurePresent None None) (\<lambda>eps.
     gret \<lparr>ieee_address = addr,
           dev_type = typeOrR,
           network_address = nwk,
           supported = True,
           friendly_name = fname,
           disabled = dis,
           dev_description = descr,
           dev_definition = Some (deviceDefinitionPayload def),
           power_source = Some power,
           software_build_id =
             Some (''v'' @ String_of_int v1 @ ''.'' @ String_of_int v2 @ ''.'' @ String_of_int v3),
           date_code =
             Some (String_of_int year @ padStart2 (String_of_int month)
                   @ padStart2 (String_of_int day)),
           model_id = Some (def_model def),
           interviewing = (interviewState = InProgress),
           interview_completed = (interviewState = Successful),
           interview_state = interviewState,
           manufacturer = Some (def_vendor def),
           dev_endpoints = eps\<rparr>))))))))))))))))))))"

definition devices :: "env \<Rightarrow> int \<Rightarrow> Zigbee2MQTTDevice list gen" where
  "devices env count =
     (if count \<le> 0 then gret [] else gen_for 0 (nat count) (\<lambda>i. device env None None))"

text \<open>\<open>group\<close>: an absent \<^verbatim>\<open>members\<close> argument is \<^verbatim>\<open>this.devices(this.r.int(1, 5))\<close>.\<close>

definition group :: "env \<Rightarrow> Zigbee2MQTTDevice list option \<Rightarrow> Zigbee2MQTTGroup gen" where
  "group env members =
     gbind (case members of
              Some ms \<Rightarrow> gret ms
            | None \<Rightarrow> gbind (gdraw (\<lambda>r. Rng_int r 1 5)) (devices env)) (\<lambda>members.
     gbind (gdraw (\<lambda>r. Rng_int r 1 0xfffe)) (\<lambda>gid.
     gbind (gdraw (\<lambda>r. Rng_bool r 0.05)) (\<lambda>c.
     gbind (if c then gret ''default_bind_group''
            else gbind (gtry word) (\<lambda>w.
                 gbind (gdraw (\<lambda>r. Rng_int r 1 99)) (\<lambda>n.
                 gret (w @ ''_group_'' @ String_of_int n)))) (\<lambda>fname.
     gbind (gdraw (\<lambda>r. Rng_bool r 0.5)) (\<lambda>c.
     gbind (if c then gbind (gtry (\<lambda>r. sentence r 3 8)) (\<lambda>s. gret (Some s))
            else gret None) (\<lambda>descr.
     gbind (gdraw (\<lambda>r. Rng_int r 0 4)) (\<lambda>scenesCount.
     gbind (gdraw (\<lambda>r. Rng_int r 0 (max 0 (int (length members) - 1)))) (\<lambda>k.
     gbind (gen_map (\<lambda>d.
              gbind (gtry (\<lambda>r. Rng_pick r (Object_keys (dev_endpoints d)))) (\<lambda>ep.
              gret \<lparr>member_ieee_address = ieee_address d, member_endpoint = ep\<rparr>))
              (slice0 k members)) (\<lambda>ms.
     gret \<lparr>group_id = gid,
           group_friendly_name = fname,
           group_description = descr,
           group_scenes =
             map (\<lambda>i. \<lparr>scene_id = int i + 1, scene_name = ''scene_'' @ String_of_int (int i + 1)\<rparr>)
                 [0..<nat scenesCount],
           group_members = ms\<rparr>)))))))))"

text \<open>
  \<open>groups\<close>: the candidates are picked by position, since the source removes
  duplicates by object identity (\<^verbatim>\<open>indexOf\<close>) and keeps first occurrences.
\<close>

fun unique_first :: "'a list \<Rightarrow> 'a list \<Rightarrow> 'a list" where
  "unique_first seen [] = []"
| "unique_first seen (x # xs) =
     (if x \<in> set seen then unique_first seen xs else x # unique_first (x # seen) xs)"

definition groups ::
  "env \<Rightarrow> int \<Rightarrow> Zigbee2MQTTDevice list option \<Rightarrow> Zigbee2MQTTGroup list gen" where
  "groups env count memberCandidates =
     gbind (case memberCandidates of
              Some ms \<Rightarrow> gret ms
            | None \<Rightarrow> gbind (gdraw (\<lambda>r. Rng_int r 1 5)) (devices env)) (\<lambda>memberCandidates.
     gbind (gdraw (\<lambda>r. Rng_int r 0 (int (length memberCandidates) - 1))) (\<lambda>n.
     gbind (gen_for 0 (nat n) (\<lambda>i. gtry (\<lambda>r. Rng_pick r [0..<length memberCandidates]))) (\<lambda>groupMembers.
     gen_for 0 (nat count) (\<lambda>i.
       group env (Some (map (\<lambda>j. memberCandidates ! j) (unique_first [] groupMembers)))))))"

section \<open>The network map (src/zigbee2mqtt.ts)\<close>

record Zigbee2MQTTNetworkMapNodeDefinition =
  nd_model :: string
  nd_vendor :: string
  nd_description :: string
  nd_supports :: string

record Zigbee2MQTTNetworkMapNode =
  node_ieeeAddr :: string
  node_friendlyName :: string
  node_type :: device_type
  node_networkAddress :: int
  node_manufacturerName :: "string option"
  node_modelID :: "string option"
  node_lastSeen :: int
  node_definition :: "Zigbee2MQTTNetworkMapNodeDefinition option"

record Zigbee2MQTTNetworkMapRoute =
  destinationAddress :: int
  status :: RoutingTableStatus
  memoryConstrained :: int
  manyToOne :: int
  routeRecordRequired :: int
  reserved1 :: int
  nextHopAddress :: int

record Zigbee2MQTTNetworkMapLink =
  link_source :: "string \<times> int"      \<comment> \<open>\<^verbatim>\<open>{ ieeeAddr, networkAddress }\<close>\<close>
  link_target :: "string \<times> int"
  link_linkquality :: int
  link_depth :: int
  link_routes :: "Zigbee2MQTTNetworkMapRoute list"
  link_sourceIeeeAddr :: string
  link_targetIeeeAddr :: string
  link_sourceNwkAddr :: int
  link_lqi :: int
  link_relationship :: ZigbeeRelationship
  link_deviceType :: int
  link_rxOnWhenIdle :: int
  link_permitJoining :: int

record Zigbee2MQTTNetworkMap =
  map_nodes :: "Zigbee2MQTTNetworkMapNode list"
  map_links :: "Zigbee2MQTTNetworkMapLink list"

definition expose_type_string :: "expose_type \<Rightarrow> string" where
  "expose_type_string t =
     (case t of
        T_binary \<Rightarrow> ''binary'' | T_numeric \<Rightarrow> ''numeric'' | T_text \<Rightarrow> ''text''
      | T_enum \<Rightarrow> ''enum'' | T_list \<Rightarrow> ''list'' | T_composite \<Rightarrow> ''composite''
      | T_climate \<Rightarrow> ''climate'' | T_cover \<Rightarrow> ''cover'' | T_fan \<Rightarrow> ''fan''
      | T_lock \<Rightarrow> ''lock'' | T_switch \<Rightarrow> ''switch'' | T_light \<Rightarrow> ''light'')"

text \<open>The \<^verbatim>\<open>supports\<close> text of a node: the names of the descriptors, or type and
  feature names where a descriptor has no name, without repetitions.\<close>

definition supports :: "expose list \<Rightarrow> string" where
  "supports exposes =
     join '', ''
       (unique_first []
          (map (\<lambda>e. case e_name e of
                       Some n \<Rightarrow> n
                     | None \<Rightarrow>
                         expose_type_string (e_type e) @ '' (''
                         @ (case e_features e of
                              None \<Rightarrow> ''undefined''
                            | Some fs \<Rightarrow>
                                join '', '' (map (\<lambda>f. case e_name f of Some n \<Rightarrow> n | None \<Rightarrow> []) fs))
                         @ '')'')
               exposes))"

definition network_node :: "env \<Rightarrow> Zigbee2MQTTDevice \<Rightarrow> Zigbee2MQTTNetworkMapNode gen" where
  "network_node env device' =
     gbind (gdraw (\<lambda>r. Rng_int r 0 36000000)) (\<lambda>ago.
     gret \<lparr>node_ieeeAddr = ieee_address device',
           node_friendlyName = friendly_name device',
           node_type = dev_type device',
           node_networkAddress = network_address device',
           node_manufacturerName = manufacturer device',
           node_modelID = model_id device',
           node_lastSeen = Date_now env - ago,
           node_definition =
             (case dev_definition device' of
                None \<Rightarrow> None
              | Some d \<Rightarrow>
                  Some \<lparr>nd_model = payload_model d, nd_vendor = payload_vendor d,
                        nd_description = payload_description d,
                        nd_supports = supports (payload_exposes d)\<rparr>)\<rparr>)"

text \<open>\<^verbatim>\<open>nodes[bIdx]\<close>, which is \<^verbatim>\<open>undefined\<close> outside the array.\<close>

definition nodes_at :: "Zigbee2MQTTNetworkMapNode list \<Rightarrow> int \<Rightarrow> Zigbee2MQTTNetworkMapNode option" where
  "nodes_at ns bIdx = (if 0 \<le> bIdx \<and> bIdx < int (length ns) then Some (ns ! nat bIdx) else None)"

definition pickNodeIdx :: "Zigbee2MQTTNetworkMapNode list \<Rightarrow> u32 \<Rightarrow> int \<times> u32" where
  "pickNodeIdx ns r =
     (case Rng_bool r (if length ns < 50 then 0.75 else 0.5) of
        (c, r1) \<Rightarrow> if c then (0, r1) else Rng_int r1 1 (int (length ns) - 1))"

text \<open>
  The \<^verbatim>\<open>while\<close> loop that replaces the candidate target: it runs as long as the
  candidate is the source itself, was already chosen for this source, or both ends are
  EndDevice.  Reading \<^verbatim>\<open>type\<close> of an undefined node is a type error.
\<close>

partial_function (option) target_loop ::
  "Zigbee2MQTTNetworkMapNode list \<Rightarrow> nat \<Rightarrow> int list \<Rightarrow> int \<Rightarrow> u32 \<Rightarrow> (error + (int \<times> u32)) option" where
  "target_loop ns i prevBIdxs bIdx r =
     (if bIdx = int i \<or> bIdx \<in> set prevBIdxs then
        (case pickNodeIdx ns r of (bIdx', r1) \<Rightarrow> target_loop ns i prevBIdxs bIdx' r1)
      else if node_type (ns ! i) = EndDevice then
        (case nodes_at ns bIdx of
           None \<Rightarrow> Some (Inl TypeError)
         | Some b \<Rightarrow>
             if node_type b = EndDevice then
               (case pickNodeIdx ns r of (bIdx', r1) \<Rightarrow> target_loop ns i prevBIdxs bIdx' r1)
             else Some (Inr (bIdx, r)))
      else Some (Inr (bIdx, r)))"

text \<open>One link from \<open>a = ns ! i\<close> to \<open>b = ns ! bIdx\<close>, the fields drawn in the order of
  the source.\<close>

definition make_link ::
  "Zigbee2MQTTNetworkMapNode list \<Rightarrow> bool \<Rightarrow> nat \<Rightarrow> int \<Rightarrow> Zigbee2MQTTNetworkMapLink gen" where
  "make_link ns routes i bIdx =
     (let a = ns ! i in
      gbind (gdraw linkQuality) (\<lambda>linkquality.
      case nodes_at ns bIdx of
        None \<Rightarrow> gthrow TypeError
      | Some b \<Rightarrow>
      gbind (gdraw (\<lambda>r. Rng_int r 1 3)) (\<lambda>depth.
      gbind (if routes then
               gbind routingTableEntryStatus (\<lambda>st.
               gret [\<lparr>destinationAddress = node_networkAddress a, status = st,
                      memoryConstrained = 0, manyToOne = (if node_type a = Coordinator then 1 else 0),
                      routeRecordRequired = 0, reserved1 = 0,
                      nextHopAddress = node_networkAddress a\<rparr>])
             else gret []) (\<lambda>rts.
      gbind (gtry (\<lambda>r. relationshipByType r (node_type a) (node_type b))) (\<lambda>rel.
      gbind (gdraw (\<lambda>r. Rng_bool r 0.05)) (\<lambda>c1.
      gbind (gdraw (\<lambda>r. Rng_bool r 0.25)) (\<lambda>c2.
      gbind (if c2 then gret 2
             else gbind (gdraw (\<lambda>r. Rng_bool r 0.05)) (\<lambda>c3. gret (if c3 then 1 else 0))) (\<lambda>pj.
      gret \<lparr>link_source = (node_ieeeAddr a, node_networkAddress a),
            link_target = (node_ieeeAddr b, node_networkAddress b),
            link_linkquality = linkquality,
            link_depth = depth,
            link_routes = rts,
            link_sourceIeeeAddr = node_ieeeAddr a,
            link_targetIeeeAddr = node_ieeeAddr b,
            link_sourceNwkAddr = node_networkAddress a,
            link_lqi = linkquality,
            link_relationship = rel,
            link_deviceType =
              (if node_type a = EndDevice then 2 else if node_type a = Router then 1
               else if node_type a = Coordinator then 0 else 3),
            link_rxOnWhenIdle =
              (if c1 then 2
               else if node_type a = Router \<or> node_type a = Coordinator then 1 else 0),
            link_permitJoining = pj\<rparr>))))))))"

text \<open>
  The loop over \<^verbatim>\<open>j\<close> for one source \<open>i\<close>: its bound \<^verbatim>\<open>this.r.int(0, ...)\<close> is
  drawn again at every test of the loop condition.  \<open>prevBIdxs\<close> holds the targets
  chosen so far for this source, \<open>links\<close> all links so far.
\<close>

partial_function (option) links_loop ::
  "Zigbee2MQTTNetworkMapNode list \<Rightarrow> bool \<Rightarrow> nat \<Rightarrow> nat \<Rightarrow> int list
     \<Rightarrow> Zigbee2MQTTNetworkMapLink list \<Rightarrow> u32
     \<Rightarrow> (error + (Zigbee2MQTTNetworkMapLink list \<times> u32)) option" where
  "links_loop ns routes i j prevBIdxs links r =
     (case Rng_int r 0 (if length ns < 50 then 3 else 6) of
        (bound, r1) \<Rightarrow>
          if int j < bound then
            (case (if i = 0 then Rng_int r1 1 (int (length ns) - 1) else pickNodeIdx ns r1) of
               (bIdx0, r2) \<Rightarrow>
                 (case target_loop ns i prevBIdxs bIdx0 r2 of
                    None \<Rightarrow> None
                  | Some (Inl e) \<Rightarrow> Some (Inl e)
                  | Some (Inr (bIdx, r3)) \<Rightarrow>
                      (case make_link ns routes i bIdx r3 of
                         None \<Rightarrow> None
                       | Some (Inl e) \<Rightarrow> Some (Inl e)
                       | Some (Inr (l, r4)) \<Rightarrow>
                           links_loop ns routes i (Suc j) (prevBIdxs @ [bIdx]) (links @ [l]) r4)))
          else Some (Inr (links, r1)))"

text \<open>The loop over the sources, \<^verbatim>\<open>for (let i = 0; i < nodes.length - 1; i++)\<close>;
  \<open>n\<close> counts the sources still to come.\<close>

fun sources_loop ::
  "Zigbee2MQTTNetworkMapNode list \<Rightarrow> bool \<Rightarrow> nat \<Rightarrow> nat \<Rightarrow> Zigbee2MQTTNetworkMapLink list
     \<Rightarrow> Zigbee2MQTTNetworkMapLink list gen" where
  "sources_loop ns routes i 0 links = gret links"
| "sources_loop ns routes i (Suc n) links =
     gbind (links_loop ns routes i 0 [] links) (sources_loop ns routes (Suc i) n)"

definition on_mesh :: "Zigbee2MQTTDevice \<Rightarrow> bool" where
  "on_mesh device' =
     (\<not> (dev_type device' \<noteq> Coordinator \<and> dev_type device' \<noteq> Router
         \<and> dev_type device' \<noteq> EndDevice \<and> dev_type device' \<noteq> Unknown))"

definition networkMap ::
  "env \<Rightarrow> Zigbee2MQTTDevice \<Rightarrow> Zigbee2MQTTDevice list \<Rightarrow> bool \<Rightarrow> Zigbee2MQTTNetworkMap gen" where
  "networkMap env coordinator' devices' routes =
     gbind (gen_map (network_node env) (filter on_mesh (coordinator' # devices'))) (\<lambda>ns.
     gbind (sources_loop ns routes 0 (length ns - 1) []) (\<lambda>ls.
     gret \<lparr>map_nodes = ns, map_links = ls\<rparr>))"

record rawNetworkMap_payload =
  raw_type :: string
  raw_routes :: bool
  raw_value :: Zigbee2MQTTNetworkMap

definition rawNetworkMap ::
  "env \<Rightarrow> Zigbee2MQTTDevice \<Rightarrow> Zigbee2MQTTDevice list \<Rightarrow> bool option \<Rightarrow> rawNetworkMap_payload gen" where
  "rawNetworkMap env coordinator' devices' routes =
     gbind (networkMap env coordinator' devices' (case routes of Some b \<Rightarrow> b | None \<Rightarrow> False)) (\<lambda>v.
     gret \<lparr>raw_type = ''raw'',
           raw_routes = (case routes of Some b \<Rightarrow> b | None \<Rightarrow> False),
           raw_value = v\<rparr>)"

section \<open>The snapshot (src/zigbee2mqtt.ts)\<close>

definition bridgeDevices :: "Zigbee2MQTTDevice \<Rightarrow> Zigbee2MQTTDevice list \<Rightarrow> Zigbee2MQTTDevice list" where
  "bridgeDevices coordinator' devices' = coordinator' # devices'"

definition bridgeGroups :: "Zigbee2MQTTGroup list \<Rightarrow> Zigbee2MQTTGroup list" where
  "bridgeGroups groups' = groups'"

text \<open>
  A snapshot.  The five bridge payloads that come first in the returned object (state,
  info, health, converters, extensions) are generated between the groups and the
  device list; their content is not modelled: \<open>bridge\<close> stands for their generator,
  any generator at all, and \<open>snap_bridge\<close> for what it returns.
\<close>

record 'p Zigbee2MQTTAPIFakerSnapshot =
  snap_bridge :: 'p
  snap_devices :: "Zigbee2MQTTDevice list"
  snap_groups :: "Zigbee2MQTTGroup list"
  snap_networkMap :: rawNetworkMap_payload

definition snapshot ::
  "env \<Rightarrow> (Zigbee2MQTTDevice \<Rightarrow> Zigbee2MQTTDevice list \<Rightarrow> Zigbee2MQTTGroup list \<Rightarrow> 'p gen)
     \<Rightarrow> int \<Rightarrow> int \<Rightarrow> 'p Zigbee2MQTTAPIFakerSnapshot gen" where
  "snapshot env bridge deviceCount groupCount =
     gbind (coordinator env) (\<lambda>coordinator'.
     gbind (devices env deviceCount) (\<lambda>devices'.
     gbind (groups env groupCount (Some devices')) (\<lambda>groups'.
     gbind (bridge coordinator' devices' groups') (\<lambda>p.
     gbind (rawNetworkMap env coordinator' devices' (Some False)) (\<lambda>nm.
     gret \<lparr>snap_bridge = p,
           snap_devices = bridgeDevices coordinator' devices',
           snap_groups = bridgeGroups groups',
           snap_networkMap = nm\<rparr>)))))"

section \<open>What the claims about the network map speak of\<close>

text \<open>
  A link goes from the node at position \<open>i\<close> to the node at position \<open>b\<close> of the node
  list when its source and target are the addresses of these two nodes.
\<close>

definition node_address :: "Zigbee2MQTTNetworkMapNode \<Rightarrow> string \<times> int" where
  "node_address n = (node_ieeeAddr n, node_networkAddress n)"

definition link_between ::
  "Zigbee2MQTTNetworkMapNode list \<Rightarrow> nat \<times> nat \<Rightarrow> Zigbee2MQTTNetworkMapLink \<Rightarrow> bool" where
  "link_between ns ends l =
     (fst ends < length ns \<and> snd ends < length ns
      \<and> link_source l = node_address (ns ! fst ends)
      \<and> link_target l = node_address (ns ! snd ends))"

definition both_EndDevice :: "Zigbee2MQTTNetworkMapNode list \<Rightarrow> nat \<times> nat \<Rightarrow> bool" where
  "both_EndDevice ns ends =
     (node_type (ns ! fst ends) = EndDevice \<and> node_type (ns ! snd ends) = EndDevice)"

section \<open>Sample inputs\<close>

text \<open>A small catalog and cluster table, and two devices, for the concrete runs below.\<close>

definition sample_env :: env where
  "sample_env =
     \<lparr>zhcDefinitions =
        [\<lparr>def_model = ''M1'', def_vendor = ''V1'', def_description = ''D1'',
          def_whiteLabel = None, def_fingerprint = None, def_exposes = [],
          def_options = None, def_ota = False, def_endpoint = None\<rparr>],
      Clusters = [(''genBasic'', 0), (''genOnOff'', 6), (''greenPower'', 33),
                  (''manuSpecificX'', 64512)],
      HA_ENDPOINT = 1,
      GP_ENDPOINT = 242,
      Date_now = 1735689601000\<rparr>"

definition sample_endpoint :: Zigbee2MQTTDeviceEndpoint where
  "sample_endpoint =
     \<lparr>ep_name = None, ep_bindings = [], ep_configured_reportings = [],
      ep_clusters_input = [''genBasic''], ep_clusters_output = [], ep_scenes = []\<rparr>"

definition sample_device :: "string \<Rightarrow> device_type \<Rightarrow> int \<Rightarrow> int list \<Rightarrow> Zigbee2MQTTDevice" where
  "sample_device addr t nwk eps =
     \<lparr>ieee_address = addr, dev_type = t, network_address = nwk, supported = True,
      friendly_name = addr, disabled = False, dev_description = None, dev_definition = None,
      power_source = None, software_build_id = None, date_code = None, model_id = None,
      interviewing = False, interview_completed = True, interview_state = Successful,
      manufacturer = None, dev_endpoints = map (\<lambda>e. (e, sample_endpoint)) eps\<rparr>"

text \<open>The coordinator and the device that \<open>snapshot sample_env \<dots> 1 0\<close> generates from
  seed 10, and the network map it builds from them.\<close>

definition sample_coordinator :: Zigbee2MQTTDevice where
  "sample_coordinator =
     \<lparr>ieee_address = ''0x8ebc77310fe2667e'', dev_type = Coordinator,
      network_address = 0, supported = True,
      friendly_name = ''Coordinator'', disabled = False,
      dev_description = None, dev_definition = None,
      power_source = None, software_build_id = None, date_code = None,
      model_id = None, interviewing = False,
      interview_completed = True, interview_state = Successful,
      manufacturer = None,
      dev_endpoints =
        [(1, \<lparr>ep_name = Some ''neo_9'', ep_bindings = [],
                ep_configured_reportings = [],
                ep_clusters_input = [''genBasic'', ''genOnOff''],
                ep_clusters_output = [''genOnOff''], ep_scenes = []\<rparr>),
         (242,
          \<lparr>ep_name = Some ''luna_1'', ep_bindings = [],
             ep_configured_reportings = [],
             ep_clusters_input = [''greenPower'', ''genBasic''],
             ep_clusters_output = [''greenPower''], ep_scenes = []\<rparr>)]\<rparr>"

definition sample_end_device :: Zigbee2MQTTDevice where
  "sample_end_device =
     \<lparr>ieee_address = ''0x27e3ca29e90bb9c8'', dev_type = EndDevice,
      network_address = 25480, supported = True,
      friendly_name = ''ion_2084_nova'', disabled = False,
      dev_description = Some ''Terra terra gamma flux terra flux flux beta.'',
      dev_definition =
        Some \<lparr>payload_source = ''native'', payload_model = ''M1'',
               payload_vendor = ''V1'', payload_description = ''D1'',
               payload_exposes = [LINKQUALITY],
               payload_supports_ota = False, payload_options = []\<rparr>,
      power_source = Some ''Mains (single phase)'',
      software_build_id = Some ''v1.9.95'',
      date_code = Some ''20220106'', model_id = Some ''M1'',
      interviewing = False, interview_completed = True,
      interview_state = Successful, manufacturer = Some ''V1'',
      dev_endpoints =
        [(1, \<lparr>ep_name = None,
                ep_bindings =
                  [\<lparr>binding_cluster = ''genOnOff'', binding_target = Target_group 26\<rparr>,
                   \<lparr>binding_cluster = ''genOnOff'', binding_target = Target_group 8\<rparr>],
                ep_configured_reportings =
                  [\<lparr>reporting_cluster = ''genBasic'',
                      reporting_attribute = JNumber 20454,
                      minimum_report_interval = 21,
                      maximum_report_interval = 2406,
                      reportable_change = 6\<rparr>],
                ep_clusters_input = [''genBasic'', ''genOnOff''],
                ep_clusters_output = [''genOnOff''],
                ep_scenes = []\<rparr>)]\<rparr>"

definition sample_networkMap :: rawNetworkMap_payload where
  "sample_networkMap =
     \<lparr>raw_type = ''raw'', raw_routes = False,
      raw_value =
        \<lparr>map_nodes =
           [\<lparr>node_ieeeAddr = ''0x8ebc77310fe2667e'',
               node_friendlyName = ''Coordinator'',
               node_type = Coordinator, node_networkAddress = 0,
               node_manufacturerName = None, node_modelID = None,
               node_lastSeen = 1735678787212, node_definition = None\<rparr>,
            \<lparr>node_ieeeAddr = ''0x27e3ca29e90bb9c8'',
               node_friendlyName = ''ion_2084_nova'',
               node_type = EndDevice, node_networkAddress = 25480,
               node_manufacturerName = Some ''V1'',
               node_modelID = Some ''M1'',
               node_lastSeen = 1735668670097,
               node_definition =
                 Some \<lparr>nd_model = ''M1'', nd_vendor = ''V1'',
                        nd_description = ''D1'', nd_supports = ''linkquality''\<rparr>\<rparr>],
         map_links =
           [\<lparr>link_source = (''0x8ebc77310fe2667e'', 0),
               link_target = (''0x27e3ca29e90bb9c8'', 25480),
               link_linkquality = 94, link_depth = 3,
               link_routes = [],
               link_sourceIeeeAddr = ''0x8ebc77310fe2667e'',
               link_targetIeeeAddr = ''0x27e3ca29e90bb9c8'',
               link_sourceNwkAddr = 0, link_lqi = 94,
               link_relationship = NeighborIsAChild,
               link_deviceType = 0, link_rxOnWhenIdle = 1,
               link_permitJoining = 0\<rparr>]\<rparr>\<rparr>"

text \<open>
  The links \<open>ls\<close> are links of the node list \<open>ns\<close>, the \<open>k\<close>-th between the positions
  \<open>ends ! k\<close>: no two links between the same ordered pair of positions, no link from a
  position to itself, no link between two EndDevice nodes.
\<close>

definition links_valid ::
  "Zigbee2MQTTNetworkMapNode list \<Rightarrow> (nat \<times> nat) list \<Rightarrow> Zigbee2MQTTNetworkMapLink list \<Rightarrow> bool" where
  "links_valid ns ends ls =
     (list_all2 (link_between ns) ends ls
      \<and> distinct ends
      \<and> list_all (\<lambda>e. fst e \<noteq> snd e \<and> \<not> both_EndDevice ns e) ends)"

text \<open>The links added for one source: one per target chosen, the targets different from
  each other, from those chosen before and from the source.\<close>

definition links_added ::
  "Zigbee2MQTTNetworkMapNode list \<Rightarrow> nat \<Rightarrow> int list \<Rightarrow> Zigbee2MQTTNetworkMapLink list
     \<Rightarrow> Zigbee2MQTTNetworkMapLink list \<Rightarrow> bool" where
  "links_added ns i prevBIdxs links links' =
     (\<exists>bs new. links' = links @ new
        \<and> list_all2 (\<lambda>b l. link_between ns (i, nat b) l) bs new
        \<and> distinct (prevBIdxs @ bs)
        \<and> (\<forall>b \<in> set bs. 0 \<le> b \<and> b \<noteq> int i \<and> \<not> both_EndDevice ns (i, nat b)))"

section \<open>Basic facts about the stream\<close>

lemma Rng_next_range: "0 \<le> fst (Rng_next t) \<and> fst (Rng_next t) < 1"
proof -
  obtain u t' where m: "mulberry32 t = (u, t')" by (cases "mulberry32 t")
  have "uint u < 4294967296" using uint_bounded [of u] by simp
  then have "real_of_int (uint u) < real_of_int 4294967296" by (simp only: of_int_less_iff)
  moreover have "real_of_int 0 \<le> real_of_int (uint u)" by (simp only: of_int_le_iff uint_ge_0)
  ultimately show ?thesis by (simp add: Rng_next_def m)
qed

lemma Rng_int_range:
  assumes "mn \<le> mx"
  shows "mn \<le> fst (Rng_int t mn mx) \<and> fst (Rng_int t mn mx) \<le> mx"
proof -
  obtain x t' where n: "Rng_next t = (x, t')" by (cases "Rng_next t")
  have x: "0 \<le> x" "x < 1" using Rng_next_range [of t] by (simp_all add: n)
  let ?k = "real_of_int (mx - mn + 1)"
  have k: "0 < ?k" using assms by simp
  have lo: "0 \<le> x * ?k" using x k by simp
  have hi: "x * ?k < ?k" using x k by simp
  have "0 \<le> \<lfloor>x * ?k\<rfloor>" using lo by simp
  moreover have "\<lfloor>x * ?k\<rfloor> < mx - mn + 1" using hi by (simp only: floor_less_iff)
  ultimately show ?thesis by (simp add: Rng_int_def n)
qed

lemma Rng_pick_Inr:
  assumes "arr \<noteq> []"
  shows "\<exists>i t'. i < length arr \<and> Rng_pick t arr = Inr (arr ! i, t')"
proof -
  obtain i t' where r: "Rng_int t 0 (int (length arr) - 1) = (i, t')"
    by (cases "Rng_int t 0 (int (length arr) - 1)")
  have "(0::int) \<le> int (length arr) - 1" using assms by (cases arr) simp_all
  from Rng_int_range [OF this, of t] have "0 \<le> i" "i \<le> int (length arr) - 1"
    by (simp_all add: r)
  then have "nat i < length arr" by linarith
  moreover have "Rng_pick t arr = Inr (arr ! nat i, t')"
    using assms by (simp add: Rng_pick_def r)
  ultimately show ?thesis by blast
qed

section \<open>Claims about the relationship table\<close>

text \<open>
  C5: \<open>relationshipByType\<close> fails, with the invalid-relationship error, exactly when both
  types are Coordinator or both are EndDevice; every other pair of types yields a
  relationship code.
\<close>

theorem relationshipByType_error_iff:
  "((a = Coordinator \<and> b = Coordinator) \<or> (a = EndDevice \<and> b = EndDevice)
      \<longrightarrow> (\<exists>m. relationshipByType r a b = Inl (InvalidRelationship m)))
   \<and> (\<not> ((a = Coordinator \<and> b = Coordinator) \<or> (a = EndDevice \<and> b = EndDevice))
      \<longrightarrow> (\<exists>rel r'. relationshipByType r a b = Inr (rel, r')))"
proof -
  have pick2: "\<exists>rel r'. relationship t (Some [x, y]) = Inr (rel, r')" for t x y
    using Rng_pick_Inr [of "[x, y]" t] by (auto simp: relationship_def)
  show ?thesis
    using pick2
    by (cases a; cases b) (auto simp: relationshipByType_def split: prod.splits)
qed

theorem relationshipByType_error_iff_witness:
  "(\<exists>m. relationshipByType 1 EndDevice EndDevice = Inl (InvalidRelationship m))
   \<and> (\<exists>rel r'. relationshipByType 1 Unknown Router = Inr (rel, r'))"
  using relationshipByType_error_iff [of EndDevice EndDevice 1]
        relationshipByType_error_iff [of Unknown Router 1]
  by simp

text \<open>
  C2, as the code has it: between an EndDevice and an Unknown, in either argument
  order, the returned code makes the Unknown side the parent of the EndDevice side, and
  the stream is not consumed.
\<close>

theorem relationshipByType_EndDevice_Unknown:
  "relationshipByType r EndDevice Unknown = Inr (NeighborIsParent, r)
   \<and> parent_side NeighborIsParent EndDevice Unknown = Some Unknown
   \<and> relationshipByType r Unknown EndDevice = Inr (NeighborIsAChild, r)
   \<and> parent_side NeighborIsAChild Unknown EndDevice = Some Unknown"
  by (simp add: relationshipByType_def parent_side_def)

text \<open>
  C2, as stated, fails: for \<open>a = EndDevice\<close> and \<open>b = Unknown\<close> the code returned
  says that the neighbour, the Unknown device, is the parent.
\<close>

theorem relationshipByType_EndDevice_Unknown_counterexample:
  "relationshipByType 1 EndDevice Unknown = Inr (NeighborIsParent, 1)
   \<and> parent_side NeighborIsParent EndDevice Unknown \<noteq> Some EndDevice"
  by (simp add: relationshipByType_def parent_side_def)

section \<open>Claims about the stream\<close>

text \<open>
  C7: \<open>pick\<close> fails with the empty-input error exactly on the empty sequence; on a
  non-empty sequence it returns the element at some index below the length.
\<close>

theorem Rng_pick_error_iff:
  "(Rng_pick t arr = Inl EmptyInput \<longleftrightarrow> arr = [])
   \<and> ((\<exists>e. Rng_pick t arr = Inl e) \<longleftrightarrow> arr = [])
   \<and> (arr \<noteq> [] \<longrightarrow> (\<exists>i t'. i < length arr \<and> Rng_pick t arr = Inr (arr ! i, t')))"
proof (cases "arr = []")
  case True
  then show ?thesis by (simp add: Rng_pick_def)
next
  case False
  from Rng_pick_Inr [OF False, of t] show ?thesis using False by auto
qed

theorem Rng_pick_error_iff_witness:
  "Rng_pick 1 ([] :: nat list) = Inl EmptyInput
   \<and> (\<exists>i t'. i < length [7, 8, 9 :: nat] \<and> Rng_pick 1 [7, 8, 9 :: nat] = Inr ([7, 8, 9] ! i, t'))"
  using Rng_pick_error_iff [of 1 "[] :: nat list"] Rng_pick_error_iff [of 1 "[7, 8, 9 :: nat]"]
  by simp

section \<open>Claims about extended PAN ids\<close>

lemma lower_hex_cases:
  "lower_hex c \<Longrightarrow> \<exists>h < 16. hex_digit_value c = Some h \<and> hex_digit h = c"
  by (auto simp: lower_hex_def hex_digit_value_def hex_digit_def)

lemma byte_roundtrip:
  assumes "h < 16" "l < 16"
  shows "unat (word_of_nat (16 * h + l) :: 8 word) = 16 * h + l"
proof -
  have "16 * h + l < 256" using assms by simp
  then show ?thesis by (subst unat_of_nat) simp
qed

lemma hex_roundtrip:
  "even (length s) \<Longrightarrow> \<forall>c \<in> set s. lower_hex c
     \<Longrightarrow> Buffer_toString_hex (Buffer_from_hex s) = s"
proof (induction s rule: Buffer_from_hex.induct)
  case (1 a b cs)
  from 1(3) obtain h where h: "h < 16" "hex_digit_value a = Some h" "hex_digit h = a"
    using lower_hex_cases [of a] by auto
  from 1(3) obtain l where l: "l < 16" "hex_digit_value b = Some l" "hex_digit l = b"
    using lower_hex_cases [of b] by auto
  have ih: "Buffer_toString_hex (Buffer_from_hex cs) = cs"
    using 1 h l by simp
  have "unat (word_of_nat (16 * h + l) :: 8 word) = 16 * h + l"
    by (rule byte_roundtrip) fact+
  then show ?case using h l ih by (simp add: Buffer_toString_hex_def)
qed (simp_all add: Buffer_toString_hex_def)

lemma array_roundtrip: "rev (Buffer_from_array (Array_from_Buffer (rev bs))) = bs"
  by (simp add: Buffer_from_array_def Array_from_Buffer_def rev_map [symmetric] comp_def)

text \<open>
  C8: a string made of \<open>0x\<close> and 16 lowercase hexadecimal digits, turned into its
  little-endian byte array by \<open>extendedPanIdToArray\<close> and back by
  \<open>extendedPanIdFromArray\<close>, is the same string again.
\<close>

theorem extendedPanId_roundtrip:
  assumes "length ds = 16" and "\<forall>c \<in> set ds. lower_hex c"
  shows "extendedPanIdFromArray (extendedPanIdToArray (''0x'' @ ds)) = ''0x'' @ ds"
proof -
  have "even (length ds)" using assms(1) by simp
  from hex_roundtrip [OF this assms(2)] show ?thesis
    by (simp add: extendedPanIdFromArray_def extendedPanIdToArray_def array_roundtrip)
qed

theorem extendedPanId_roundtrip_witness:
  "length ''a08ff49b6f772632'' = 16
   \<and> list_all lower_hex ''a08ff49b6f772632''
   \<and> extendedPanIdToArray ''0xa08ff49b6f772632'' = [50, 38, 119, 111, 155, 244, 143, 160]
   \<and> extendedPanIdFromArray (extendedPanIdToArray (''0x'' @ ''a08ff49b6f772632''))
       = ''0x'' @ ''a08ff49b6f772632''"
  using extendedPanId_roundtrip [of "''a08ff49b6f772632''"]
  by (simp add: lower_hex_def extendedPanIdToArray_def Array_from_Buffer_def hex_digit_value_def)

section \<open>Claims about the tree walker\<close>












section \<open>Claims about the value synthesizer\<close>

text \<open>
  C1 at a descriptor whose declared range is 0 to 100 (a battery percentage): the
  declared maximum is not 0, so the upper bound passed to \<open>Rng_int\<close> is 255, and the
  value returned from stream state 1 is 160, above the declared maximum.
\<close>

theorem exposeValue_numeric_exceeds_value_max:
  "exposeValue 1 (Expose T_numeric (Some ''battery'') (Some ''battery'') JUndefined JUndefined
                    (Some 0) (Some 100) [] None None None None)
     = Inr (JNumber 160, 1831565814)
   \<and> e_value_max (Expose T_numeric (Some ''battery'') (Some ''battery'') JUndefined JUndefined
                    (Some 0) (Some 100) [] None None None None) = Some 100
   \<and> (160 :: int) > 100"
  by (simp add: Rng_int_def Rng_next_def mulberry32_def imul_def)

section \<open>Determinism and separation of instances\<close>

lemma invoke_length: "length (snd (invoke i c st)) = length st"
  by (simp add: invoke_def split: prod.splits)

lemma invoke_other: "i \<noteq> j \<Longrightarrow> snd (invoke i c st) ! j = st ! j"
  by (simp add: invoke_def split: prod.splits)

lemma invoke_same:
  "i < length st \<Longrightarrow> invoke i c st = (fst (Rng_call c (st ! i)), st[i := snd (Rng_call c (st ! i))])"
  by (simp add: invoke_def split: prod.splits)

lemma invoke_all_cell:
  "i < length st \<Longrightarrow> j < length st' \<Longrightarrow> st ! i = st' ! j
     \<Longrightarrow> fst (invoke_all i cs st) = fst (invoke_all j cs st')"
proof (induction cs arbitrary: st st')
  case Nil
  show ?case by simp
next
  case (Cons c cs)
  let ?s1 = "snd (invoke i c st)" and ?s1' = "snd (invoke j c st')"
  have r: "fst (invoke i c st) = fst (invoke j c st')"
    using Cons.prems by (simp add: invoke_same)
  have "?s1 ! i = ?s1' ! j" using Cons.prems by (simp add: invoke_same)
  moreover have "i < length ?s1" "j < length ?s1'"
    using Cons.prems by (simp_all add: invoke_length)
  ultimately have "fst (invoke_all i cs ?s1) = fst (invoke_all j cs ?s1')"
    by (rule Cons.IH [rotated 2])
  with r show ?case by (simp add: split_beta)
qed

lemma run_calls_projection:
  "b < length st
     \<Longrightarrow> of_instance b (fst (run_calls ics st)) = fst (invoke_all b (of_instance b ics) st)"
proof (induction ics arbitrary: st)
  case Nil
  show ?case by (simp add: of_instance_def)
next
  case (Cons ic ics)
  obtain i c where ic: "ic = (i, c)" by (cases ic)
  let ?s1 = "snd (invoke i c st)"
  have len: "b < length ?s1" using Cons.prems by (simp add: invoke_length)
  have ih: "of_instance b (fst (run_calls ics ?s1)) = fst (invoke_all b (of_instance b ics) ?s1)"
    by (rule Cons.IH [OF len])
  show ?case
  proof (cases "i = b")
    case True
    with ih show ?thesis by (simp add: ic of_instance_def split_beta)
  next
    case False
    then have "?s1 ! b = st ! b" by (rule invoke_other)
    with len Cons.prems
    have "fst (invoke_all b (of_instance b ics) ?s1) = fst (invoke_all b (of_instance b ics) st)"
      by (intro invoke_all_cell) simp_all
    with ih False show ?thesis by (simp add: ic of_instance_def split_beta)
  qed
qed

text \<open>
  C3: two instances constructed one after the other from the same seed are different
  instances; in any program that calls methods on these and other instances, if the
  calls made on the one are, in order, the calls made on the other, then the results
  are the same, in order; and, whatever the calls are, the results an instance returns
  are those it returns when its calls are run alone, whatever is called on other
  instances in between.
\<close>

theorem Rng_instances_deterministic:
  assumes "Rng_constructor s st0 = (a, st1)"
    and "Rng_constructor s st1 = (b, st2)"
  shows "a \<noteq> b
    \<and> (of_instance a ics = of_instance b ics
         \<longrightarrow> of_instance a (fst (run_calls ics st2)) = of_instance b (fst (run_calls ics st2)))
    \<and> of_instance a (fst (run_calls ics st2)) = fst (invoke_all a (of_instance a ics) st2)
    \<and> of_instance b (fst (run_calls ics st2)) = fst (invoke_all b (of_instance b ics) st2)"
proof -
  from assms have a: "a = length st0" and b: "b = Suc (length st0)"
    and st2: "st2 = st0 @ [Rng_new s, Rng_new s]"
    by (auto simp: Rng_constructor_def)
  have ab: "a \<noteq> b" by (simp add: a b)
  have la: "a < length st2" and lb: "b < length st2" by (simp_all add: a b st2)
  have cell: "st2 ! a = st2 ! b" by (simp add: a b st2 nth_append)
  have pa: "of_instance a (fst (run_calls ics st2)) = fst (invoke_all a (of_instance a ics) st2)"
    by (rule run_calls_projection [OF la])
  have pb: "of_instance b (fst (run_calls ics st2)) = fst (invoke_all b (of_instance b ics) st2)"
    by (rule run_calls_projection [OF lb])
  have same: "of_instance a (fst (run_calls ics st2)) = of_instance b (fst (run_calls ics st2))"
    if eq: "of_instance a ics = of_instance b ics"
  proof -
    have "fst (invoke_all a (of_instance a ics) st2) = fst (invoke_all b (of_instance a ics) st2)"
      by (rule invoke_all_cell [OF la lb cell])
    also have "\<dots> = fst (invoke_all b (of_instance b ics) st2)"
      by (simp only: eq)
    finally show ?thesis by (simp only: pa pb)
  qed
  from ab same pa pb show ?thesis by blast
qed

theorem Rng_instances_deterministic_witness:
  "Rng_constructor 1 [] = (0, [1])
   \<and> Rng_constructor 1 [1] = (1, [1, 1])
   \<and> of_instance 0 [(0, Call_hex (Suc 0)), (1, Call_hex (Suc 0) :: nat rng_call)]
       = of_instance 1 [(0, Call_hex (Suc 0)), (1, Call_hex (Suc 0))]
   \<and> fst (run_calls [(0, Call_hex (Suc 0)), (1, Call_hex (Suc 0) :: nat rng_call)] [1, 1])
       = [(0, Res_hex ''a''), (1, Res_hex ''a'')]"
  using Rng_instances_deterministic
    [of 1 "[]" 0 "[1]" 1 "[1, 1]" "[(0, Call_hex (Suc 0)), (1, Call_hex (Suc 0) :: nat rng_call)]"]
  by (simp add: Rng_constructor_def Rng_new_def of_instance_def invoke_def Rng_int_def
        Rng_next_def mulberry32_def imul_def)

section \<open>Facts about generators\<close>

lemma gbind_Inr:
  assumes "gbind m f r = Some (Inr (y, r'))"
  obtains x r1 where "m r = Some (Inr (x, r1))" and "f x r1 = Some (Inr (y, r'))"
  using assms by (auto simp: gbind_def split: option.splits sum.splits)

lemma gret_Inr: "gret x r = Some (Inr (y, r')) \<longleftrightarrow> y = x \<and> r' = r"
  by (auto simp: gret_def)

lemma gthrow_Inr: "gthrow e r \<noteq> Some (Inr (y, r'))"
  by (simp add: gthrow_def)

lemma gdraw_Inr: "gdraw f r = Some (Inr (y, r')) \<longleftrightarrow> f r = (y, r')"
  by (auto simp: gdraw_def)

lemma gtry_Inr: "gtry f r = Some (Inr (y, r')) \<longleftrightarrow> f r = Inr (y, r')"
  by (auto simp: gtry_def)

lemma gen_map_Inr:
  "gen_map body xs r = Some (Inr (ys, r'))
     \<Longrightarrow> list_all2 (\<lambda>x y. \<exists>r1 r2. body x r1 = Some (Inr (y, r2))) xs ys"
proof (induction xs arbitrary: ys r r')
  case Nil
  then show ?case by (simp add: gret_Inr)
next
  case (Cons x xs)
  from Cons.prems obtain y r1 where y: "body x r = Some (Inr (y, r1))"
    and rest: "gbind (gen_map body xs) (\<lambda>ys. gret (y # ys)) r1 = Some (Inr (ys, r'))"
    by (auto elim: gbind_Inr)
  from rest obtain ys' r2 where ys': "gen_map body xs r1 = Some (Inr (ys', r2))"
    and "ys = y # ys'"
    by (auto elim!: gbind_Inr simp: gret_Inr)
  with Cons.IH [OF ys'] y show ?case by auto
qed

lemma gen_for_Inr:
  "gen_for i n body r = Some (Inr (ys, r'))
     \<Longrightarrow> length ys = n \<and> (\<forall>y \<in> set ys. \<exists>k r1 r2. body k r1 = Some (Inr (y, r2)))"
proof (induction n arbitrary: i ys r r')
  case 0
  then show ?case by (simp add: gret_Inr)
next
  case (Suc n)
  from Suc.prems obtain y r1 where y: "body i r = Some (Inr (y, r1))"
    and rest: "gbind (gen_for (Suc i) n body) (\<lambda>ys. gret (y # ys)) r1 = Some (Inr (ys, r'))"
    by (auto elim: gbind_Inr)
  from rest obtain ys' r2 where ys': "gen_for (Suc i) n body r1 = Some (Inr (ys', r2))"
    and "ys = y # ys'"
    by (auto elim!: gbind_Inr simp: gret_Inr)
  with Suc.IH [OF ys'] y show ?case by auto
qed

lemma Rng_pick_Inr_mem: "Rng_pick r arr = Inr (v, r') \<Longrightarrow> v \<in> set arr"
proof -
  assume a: "Rng_pick r arr = Inr (v, r')"
  then have "arr \<noteq> []" by (auto simp: Rng_pick_def)
  from Rng_pick_Inr [OF this, of r] a show ?thesis by auto
qed

section \<open>Running the generators on concrete inputs\<close>

text \<open>
  Rewrite rules that run a generator once the stream state is a numeral, so that no
  call is unfolded before its state is known.
\<close>

lemma gbind_at:
  "gbind m f (numeral n) =
     (case m (numeral n) of
        None \<Rightarrow> None
      | Some (Inl e) \<Rightarrow> Some (Inl e)
      | Some (Inr (x, r1)) \<Rightarrow> f x r1)"
  by (simp add: gbind_def)

lemma gret_at: "gret x (numeral n) = Some (Inr (x, numeral n))"
  by (simp add: gret_def)

lemma gthrow_at: "gthrow e (numeral n) = Some (Inl e)"
  by (simp add: gthrow_def)

lemma gdraw_at: "gdraw f (numeral n) = Some (Inr (f (numeral n)))"
  by (simp add: gdraw_def)

lemma gtry_at: "gtry f (numeral n) = Some (f (numeral n))"
  by (simp add: gtry_def)

lemma Rng_hex_at:
  "Rng_hex (numeral n) (numeral k) =
     (let (i, t1) = Rng_int (numeral n) 0 15;
          (out, t2) = Rng_hex t1 (pred_numeral k)
      in (''0123456789abcdef'' ! nat i # out, t2))"
  by (simp add: numeral_eq_Suc)

lemma gen_for_numeral:
  "gen_for i (numeral k) body =
     gbind (body i) (\<lambda>x. gbind (gen_for (Suc i) (pred_numeral k) body) (\<lambda>xs. gret (x # xs)))"
  by (simp add: numeral_eq_Suc)

lemma words_loop_at:
  "words_loop (numeral k) (numeral n) =
     (case word (numeral n) of
        Inl e \<Rightarrow> Inl e
      | Inr (w, r1) \<Rightarrow>
          (case words_loop (pred_numeral k) r1 of
             Inl e \<Rightarrow> Inl e
           | Inr (ws, r2) \<Rightarrow> Inr (w # ws, r2)))"
  by (simp add: numeral_eq_Suc)

lemma scenes_loop_numeral:
  "scenes_loop i (numeral k) scenes addedScenes =
     gbind (gdraw (\<lambda>r. Rng_int r 1 255)) (\<lambda>id0.
     gbind (scene_id_loop addedScenes id0) (\<lambda>id'.
     scenes_loop (Suc i) (pred_numeral k)
       (scenes @ [\<lparr>scene_id = id', scene_name = ''scene_'' @ String_of_int (int i + 1)\<rparr>])
       (addedScenes @ [id'])))"
  by (simp add: numeral_eq_Suc)

lemma random_endpoints_loop_numeral:
  "random_endpoints_loop env (numeral k) maxBindingsCount maxReportingCount eps =
     gbind (gdraw (\<lambda>r. Rng_int r 0x01 0xfe)) (\<lambda>ep0.
     gbind (endpoint_id_loop eps ep0) (\<lambda>ep.
     gbind (endpoint env ep None maxBindingsCount maxReportingCount) (\<lambda>e.
     random_endpoints_loop env (pred_numeral k) maxBindingsCount maxReportingCount
       (record_set ep e eps))))"
  by (simp add: numeral_eq_Suc)

lemma sources_loop_numeral:
  "sources_loop ns routes i (numeral k) links =
     gbind (links_loop ns routes i 0 [] links) (sources_loop ns routes (Suc i) (pred_numeral k))"
  by (simp add: numeral_eq_Suc)

lemma sample_env_fields:
  "zhcDefinitions sample_env =
     [\<lparr>def_model = ''M1'', def_vendor = ''V1'', def_description = ''D1'',
       def_whiteLabel = None, def_fingerprint = None, def_exposes = [],
       def_options = None, def_ota = False, def_endpoint = None\<rparr>]"
  "Clusters sample_env = [(''genBasic'', 0), (''genOnOff'', 6), (''greenPower'', 33),
                          (''manuSpecificX'', 64512)]"
  "HA_ENDPOINT sample_env = 1"
  "GP_ENDPOINT sample_env = 242"
  "Date_now sample_env = 1735689601000"
  by (simp_all add: sample_env_def)

lemmas rng_at =
  mulberry32_def [where ?t0.0 = "numeral n" for n]
  Rng_next_def [where t = "numeral n" for n]
  Rng_int_def [where t = "numeral n" for n]
  Rng_bool_def [where t = "numeral n" for n]
  Rng_pick_def [where t = "numeral n" for n]
  Rng_hex.simps(1) Rng_hex_at imul_def Let_def

lemmas gen_at =
  gbind_at gret_at gthrow_at gdraw_at gtry_at gen_for_numeral

lemmas entity_at =
  word_def [where r = "numeral n" for n]
  sentence_def [where r = "numeral n" for n]
  words_loop.simps(1) words_loop_at
  eui64_def [where r = "numeral n" for n]
  powerSource_def [where r = "numeral n" for n]
  deviceType_def [where r = "numeral n" for n]
  clusterName_loop.simps [where r = "numeral n" for n]
  scene_id_loop.simps [where r = "numeral n" for n]
  endpoint_id_loop.simps [where r = "numeral n" for n]
  clusterName_def scenes_loop_numeral random_endpoints_loop_numeral
  coordinator_def device_def devices_def endpoints_def endpoint_def bindings_def reporting_def
  friendlyName_def definitionEndpoints_def deviceDefinitionPayload_def deviceExposes_def
  zhcGpDefinitions_def startsWith_def set_add_def String_of_int_def string_of_nat.simps
  padStart2_def toUpperCase_char_def sample_env_fields

lemmas map_at =
  linkQuality_def [where r = "numeral n" for n]
  pickNodeIdx_def [where r = "numeral n" for n]
  relationshipByType_def [where r = "numeral n" for n]
  relationship_def [where r = "numeral n" for n]
  target_loop.simps [where r = "numeral n" for n]
  links_loop.simps [where r = "numeral n" for n]
  sources_loop_numeral routingTableEntryStatus_def
  snapshot_def groups_def rawNetworkMap_def networkMap_def network_node_def on_mesh_def
  make_link_def nodes_at_def bridgeDevices_def bridgeGroups_def supports_def

text \<open>The run of \<open>snapshot sample_env \<dots> 1 0\<close> from seed 10, stage by stage.\<close>

lemma sample_coordinator_run:
  "coordinator sample_env 10 = Some (Inr (sample_coordinator, 880024168))"
  by (simp add: sample_coordinator_def entity_at gen_at rng_at cong: let_weak_cong)

lemma sample_devices_run:
  "devices sample_env 1 880024168 = Some (Inr ([sample_end_device], 3839802627))"
  by (simp add: sample_end_device_def LINKQUALITY_def entity_at gen_at rng_at char_of_def bit_0
           cong: let_weak_cong)

lemma sample_groups_run:
  "groups sample_env 0 (Some [sample_end_device]) 3839802627 = Some (Inr ([], 1376401144))"
  by (simp add: groups_def gen_at rng_at cong: let_weak_cong)

lemma sample_networkMap_run:
  "rawNetworkMap sample_env sample_coordinator [sample_end_device] (Some False) 1376401144
     = Some (Inr (sample_networkMap, 2512190090))"
  by (simp add: sample_networkMap_def sample_coordinator_def sample_end_device_def LINKQUALITY_def
        map_at sample_env_fields gen_at rng_at cong: let_weak_cong)

lemma sample_snapshot_run:
  "snapshot sample_env (\<lambda>c ds gs. gret ()) 1 0 10
     = Some (Inr (\<lparr>snap_bridge = (),
                   snap_devices = [sample_coordinator, sample_end_device],
                   snap_groups = [],
                   snap_networkMap = sample_networkMap\<rparr>, 2512190090))"
  by (simp add: snapshot_def bridgeDevices_def bridgeGroups_def gbind_at gret_at
        sample_coordinator_run sample_devices_run sample_groups_run sample_networkMap_run)

section \<open>Claims about groups\<close>

lemma group_member_of_candidate:
  assumes "gbind (gtry (\<lambda>r. Rng_pick r (Object_keys (dev_endpoints d))))
             (\<lambda>ep. gret \<lparr>member_ieee_address = ieee_address d, member_endpoint = ep\<rparr>) r1
           = Some (Inr (m, r2))"
  shows "member_ieee_address m = ieee_address d
         \<and> member_endpoint m \<in> fst ` set (dev_endpoints d)"
proof -
  from assms obtain ep r3 where p: "Rng_pick r1 (Object_keys (dev_endpoints d)) = Inr (ep, r3)"
    and m: "m = \<lparr>member_ieee_address = ieee_address d, member_endpoint = ep\<rparr>"
    by (auto elim!: gbind_Inr simp: gtry_Inr gret_Inr)
  from Rng_pick_Inr_mem [OF p] have "ep \<in> fst ` set (dev_endpoints d)"
    by (simp add: Object_keys_def)
  with m show ?thesis by simp
qed

text \<open>
  C10, as the code has it: when \<open>group\<close> returns for a list of candidates, the group
  has at most \<open>max(0, members.length - 1)\<close> members, so fewer members than
  candidates unless there is no candidate, and none when there is one candidate; the
  members are, in order, the first candidates: each carries the address of the candidate
  at its position and one of the endpoint ids of that candidate.
\<close>

theorem group_members_prefix:
  assumes "group env (Some members) r = Some (Inr (g, r'))"
  shows "int (length (group_members g)) \<le> max 0 (int (length members) - 1)
    \<and> (members \<noteq> [] \<longrightarrow> length (group_members g) < length members)
    \<and> (length members = 1 \<longrightarrow> group_members g = [])
    \<and> map member_ieee_address (group_members g)
        = take (length (group_members g)) (map ieee_address members)
    \<and> (\<forall>k < length (group_members g).
          member_endpoint (group_members g ! k) \<in> fst ` set (dev_endpoints (members ! k)))"
proof -
  let ?body = "\<lambda>d. gbind (gtry (\<lambda>r. Rng_pick r (Object_keys (dev_endpoints d))))
                 (\<lambda>ep. gret \<lparr>member_ieee_address = ieee_address d, member_endpoint = ep\<rparr>)"
  from assms obtain k ms ra rb rc where k: "Rng_int ra 0 (max 0 (int (length members) - 1)) = (k, rb)"
    and ms: "gen_map ?body (slice0 k members) rb = Some (Inr (ms, rc))"
    and g: "group_members g = ms"
    unfolding group_def
    by (auto elim!: gbind_Inr simp: gret_Inr gdraw_Inr)
  have "(0::int) \<le> max 0 (int (length members) - 1)" by simp
  from Rng_int_range [OF this, of ra] k
  have k0: "0 \<le> k" and k1: "k \<le> max 0 (int (length members) - 1)" by simp_all
  have sl: "slice0 k members = take (nat k) members" using k0 by (simp add: slice0_def)
  have nk: "nat k \<le> length members" using k1 by linarith
  from gen_map_Inr [OF ms]
  have all2: "list_all2 (\<lambda>d m. \<exists>r1 r2. ?body d r1 = Some (Inr (m, r2))) (take (nat k) members) ms"
    by (simp add: sl)
  then have len: "length ms = nat k" using nk by (auto dest: list_all2_lengthD)
  have each: "member_ieee_address (ms ! j) = ieee_address (members ! j)
              \<and> member_endpoint (ms ! j) \<in> fst ` set (dev_endpoints (members ! j))"
    if "j < length ms" for j
  proof -
    from list_all2_nthD2 [OF all2 that]
    have "\<exists>r1 r2. ?body (take (nat k) members ! j) r1 = Some (Inr (ms ! j, r2))" .
    moreover have "take (nat k) members ! j = members ! j" using that len by simp
    ultimately show ?thesis using group_member_of_candidate by metis
  qed
  have addr: "map member_ieee_address ms = take (length ms) (map ieee_address members)"
    using each len nk by (intro nth_equalityI) (simp_all add: take_map [symmetric])
  have "int (length ms) \<le> max 0 (int (length members) - 1)" using len k0 k1 by simp
  moreover have "members \<noteq> [] \<longrightarrow> length ms < length members"
    using len k0 k1 by (cases members) auto
  moreover have "length members = 1 \<longrightarrow> ms = []" using len k0 k1 by auto
  ultimately show ?thesis using addr each by (simp add: g)
qed

theorem group_members_prefix_witness:
  "group sample_env
     (Some [sample_device ''0x01'' Router 10 [1, 2], sample_device ''0x02'' EndDevice 11 [3]]) 6
     = Some (Inr (\<lparr>group_id = 34455,
                   group_friendly_name = ''default_bind_group'',
                   group_description = None,
                   group_scenes = [\<lparr>scene_id = 1, scene_name = ''scene_1''\<rparr>],
                   group_members =
                     [\<lparr>member_ieee_address = ''0x01'', member_endpoint = 1\<rparr>]\<rparr>,
                 2399460292))
   \<and> (1 :: nat) < length [sample_device ''0x01'' Router 10 [1, 2],
                           sample_device ''0x02'' EndDevice 11 [3]]"
proof -
  have run: "group sample_env
     (Some [sample_device ''0x01'' Router 10 [1, 2], sample_device ''0x02'' EndDevice 11 [3]]) 6
     = Some (Inr (\<lparr>group_id = 34455,
                   group_friendly_name = ''default_bind_group'',
                   group_description = None,
                   group_scenes = [\<lparr>scene_id = 1, scene_name = ''scene_1''\<rparr>],
                   group_members =
                     [\<lparr>member_ieee_address = ''0x01'', member_endpoint = 1\<rparr>]\<rparr>,
                 2399460292))"
    by (simp add: group_def entity_at gen_at rng_at slice0_def upt_rec sample_device_def
          Object_keys_def cong: let_weak_cong)
  from group_members_prefix [OF run] run show ?thesis by simp
qed

text \<open>
  C10, as stated, fails for the empty list of candidates: the group has all of the
  candidates, none, as members, and the bound \<open>members.length - 1\<close> is \<open>-1\<close>.
\<close>

theorem group_members_prefix_counterexample:
  "group sample_env (Some []) 2
     = Some (Inr (\<lparr>group_id = 48119, group_friendly_name = ''omega_group_54'',
                   group_description = None,
                   group_scenes =
                     [\<lparr>scene_id = 1, scene_name = ''scene_1''\<rparr>,
                      \<lparr>scene_id = 2, scene_name = ''scene_2''\<rparr>,
                      \<lparr>scene_id = 3, scene_name = ''scene_3''\<rparr>],
                   group_members = []\<rparr>,
                 4231026101))
   \<and> \<not> int (length ([] :: Zigbee2MQTTGroupMember list))
         \<le> int (length ([] :: Zigbee2MQTTDevice list)) - 1"
  by (simp add: group_def entity_at gen_at rng_at slice0_def upt_rec cong: let_weak_cong)

section \<open>Claims about devices\<close>

lemma Rng_int_rangeD:
  "Rng_int r mn mx = (v, r') \<Longrightarrow> mn \<le> mx \<Longrightarrow> mn \<le> v \<and> v \<le> mx"
  using Rng_int_range [of mn mx r] by simp

lemma case_option_gthrow_Inr:
  assumes "(case x of None \<Rightarrow> gthrow e | Some v \<Rightarrow> f v) r = Some (Inr y)"
  obtains v where "x = Some v" and "f v r = Some (Inr y)"
  using assms by (cases x) (simp_all add: gthrow_def)

lemma device_Inr:
  assumes "device env type model r = Some (Inr (d, r'))"
  shows "1 \<le> network_address d \<and> network_address d \<le> 0xfff7
    \<and> (case type of
          Some t \<Rightarrow> dev_type d = t
        | None \<Rightarrow> dev_type d \<in> {Router, EndDevice, Unknown, GreenPower})"
proof -
  from assms obtain typeOrR nwk ra rb rc where
    t: "(case type of Some t \<Rightarrow> gret t | None \<Rightarrow> gtry deviceType) r = Some (Inr (typeOrR, ra))"
    and n: "Rng_int rb 1 0xfff7 = (nwk, rc)"
    and d: "network_address d = nwk" "dev_type d = typeOrR"
    unfolding device_def
    by (elim gbind_Inr case_option_gthrow_Inr) (simp add: gret_Inr gdraw_Inr)
  from Rng_int_rangeD [OF n] have "1 \<le> nwk \<and> nwk \<le> 0xfff7" by simp
  moreover have "case type of
          Some t \<Rightarrow> typeOrR = t
        | None \<Rightarrow> typeOrR \<in> {Router, EndDevice, Unknown, GreenPower}"
    using t by (cases type) (auto simp: gret_Inr gtry_Inr deviceType_def dest: Rng_pick_Inr_mem)
  ultimately show ?thesis using d by (cases type) auto
qed

lemma coordinator_Inr:
  assumes "coordinator env r = Some (Inr (c, r'))"
  shows "network_address c = 0 \<and> dev_type c = Coordinator"
  using assms unfolding coordinator_def
  by (elim gbind_Inr) (simp add: gret_Inr)

lemma devices_Inr:
  assumes "devices env count r = Some (Inr (ds, r'))"
  shows "\<forall>d \<in> set ds. 1 \<le> network_address d \<and> network_address d \<le> 0xfff7
           \<and> dev_type d \<in> {Router, EndDevice, Unknown, GreenPower}"
proof (cases "count \<le> 0")
  case True
  with assms show ?thesis by (simp add: devices_def gret_Inr)
next
  case False
  with assms have "gen_for 0 (nat count) (\<lambda>i. device env None None) r = Some (Inr (ds, r'))"
    by (simp add: devices_def)
  from gen_for_Inr [OF this]
  have "\<forall>d \<in> set ds. \<exists>r1 r2. device env None None r1 = Some (Inr (d, r2))" by blast
  then show ?thesis by (fastforce dest: device_Inr)
qed

lemma snapshot_Inr:
  assumes "snapshot env bridge deviceCount groupCount r = Some (Inr (s, r'))"
  obtains c ds ra rb rc rd nm where "coordinator env r = Some (Inr (c, ra))"
    and "devices env deviceCount ra = Some (Inr (ds, rb))"
    and "snap_devices s = c # ds"
    and "rawNetworkMap env c ds (Some False) rc = Some (Inr (nm, rd))"
    and "snap_networkMap s = nm"
  using assms unfolding snapshot_def bridgeDevices_def
  by (elim gbind_Inr) (simp add: gret_Inr)

text \<open>
  C6, as the code has it: in a snapshot the first device is the coordinator and its
  network address is 0; every other device of the snapshot has a network address from
  1 to 0xFFF7.
\<close>

theorem snapshot_network_address:
  assumes "snapshot env bridge deviceCount groupCount r = Some (Inr (s, r'))"
  shows "snap_devices s \<noteq> []
    \<and> network_address (hd (snap_devices s)) = 0
    \<and> (\<forall>d \<in> set (tl (snap_devices s)). 1 \<le> network_address d \<and> network_address d \<le> 0xfff7)"
proof -
  from assms obtain c ds ra rb where c: "coordinator env r = Some (Inr (c, ra))"
    and ds: "devices env deviceCount ra = Some (Inr (ds, rb))"
    and s: "snap_devices s = c # ds"
    by (rule snapshot_Inr)
  from coordinator_Inr [OF c] devices_Inr [OF ds] s show ?thesis by simp
qed

theorem snapshot_network_address_witness:
  "snapshot sample_env (\<lambda>c ds gs. gret ()) 1 0 10
     = Some (Inr (\<lparr>snap_bridge = (),
                   snap_devices = [sample_coordinator, sample_end_device],
                   snap_groups = [],
                   snap_networkMap = sample_networkMap\<rparr>, 2512190090))
   \<and> network_address sample_coordinator = 0
   \<and> 1 \<le> network_address sample_end_device
   \<and> network_address sample_end_device \<le> 0xfff7"
  using snapshot_network_address [OF sample_snapshot_run]
  by (simp add: sample_snapshot_run)

text \<open>
  C6, as stated, fails at the coordinator: the first device of the snapshot generated
  from seed 10 is the coordinator, and its network address is 0, below 1.
\<close>

theorem snapshot_network_address_counterexample:
  "snapshot sample_env (\<lambda>c ds gs. gret ()) 1 0 10
     = Some (Inr (\<lparr>snap_bridge = (),
                   snap_devices = [sample_coordinator, sample_end_device],
                   snap_groups = [],
                   snap_networkMap = sample_networkMap\<rparr>, 2512190090))
   \<and> dev_type sample_coordinator = Coordinator
   \<and> network_address sample_coordinator = 0
   \<and> \<not> (1 \<le> network_address sample_coordinator \<and> network_address sample_coordinator \<le> 0xfff7)"
  by (simp add: sample_snapshot_run) (simp add: sample_coordinator_def)

section \<open>Claims about the network map\<close>

lemma nodes_at_Some:
  "nodes_at ns bIdx = Some b \<longleftrightarrow> 0 \<le> bIdx \<and> nat bIdx < length ns \<and> b = ns ! nat bIdx"
  by (auto simp: nodes_at_def)

lemma target_loop_Inr:
  assumes "target_loop ns i prevBIdxs bIdx r = Some y"
  shows "case y of
           Inl e \<Rightarrow> True
         | Inr (b, r') \<Rightarrow>
             b \<noteq> int i \<and> b \<notin> set prevBIdxs
             \<and> (node_type (ns ! i) = EndDevice
                  \<longrightarrow> (\<exists>nb. nodes_at ns b = Some nb \<and> node_type nb \<noteq> EndDevice))"
  using assms
proof (induction rule: target_loop.raw_induct [rotated 1, consumes 1])
  case (1 target_loop' ns i prevBIdxs bIdx r y)
  show ?case
  proof (cases "bIdx = int i \<or> bIdx \<in> set prevBIdxs")
    case True
    with 1(2) obtain b' r1 where "target_loop' ns i prevBIdxs b' r1 = Some y"
      by (auto split: prod.splits)
    then show ?thesis by (rule 1(1))
  next
    case False
    show ?thesis
    proof (cases "node_type (ns ! i) = EndDevice")
      case notEnd: False
      with False 1(2) show ?thesis by auto
    next
      case isEnd: True
      show ?thesis
      proof (cases "nodes_at ns bIdx")
        case None
        with False isEnd 1(2) show ?thesis by auto
      next
        case (Some nb)
        show ?thesis
        proof (cases "node_type nb = EndDevice")
          case True
          with False isEnd Some 1(2) obtain b' r1 where "target_loop' ns i prevBIdxs b' r1 = Some y"
            by (auto split: prod.splits)
          then show ?thesis by (rule 1(1))
        next
          case False
          with \<open>\<not> (bIdx = int i \<or> bIdx \<in> set prevBIdxs)\<close> isEnd Some 1(2)
          show ?thesis by auto
        qed
      qed
    qed
  qed
qed

lemma make_link_Inr:
  assumes "make_link ns routes i bIdx r = Some (Inr (l, r'))"
  shows "0 \<le> bIdx \<and> nat bIdx < length ns
    \<and> link_source l = node_address (ns ! i)
    \<and> link_target l = node_address (ns ! nat bIdx)"
proof -
  from assms obtain b where "nodes_at ns bIdx = Some b"
    and "link_source l = node_address (ns ! i)" and "link_target l = node_address b"
    unfolding make_link_def Let_def
    by (elim gbind_Inr case_option_gthrow_Inr) (simp add: gret_Inr node_address_def)
  then show ?thesis by (simp add: nodes_at_Some)
qed

lemma links_added_refl: "distinct prevBIdxs \<Longrightarrow> links_added ns i prevBIdxs links links"
  unfolding links_added_def by (rule exI [of _ "[]"], rule exI [of _ "[]"]) simp

lemma links_added_step:
  assumes l: "link_between ns (i, nat b) l"
    and b: "0 \<le> b" "b \<noteq> int i" "b \<notin> set prevBIdxs" "\<not> both_EndDevice ns (i, nat b)"
    and rest: "links_added ns i (prevBIdxs @ [b]) (links @ [l]) links'"
  shows "links_added ns i prevBIdxs links links'"
proof -
  from rest obtain bs new where new: "links' = (links @ [l]) @ new"
    and all2: "list_all2 (\<lambda>b l. link_between ns (i, nat b) l) bs new"
    and dist: "distinct ((prevBIdxs @ [b]) @ bs)"
    and each: "\<forall>b \<in> set bs. 0 \<le> b \<and> b \<noteq> int i \<and> \<not> both_EndDevice ns (i, nat b)"
    unfolding links_added_def by blast
  have "links' = links @ (l # new)" using new by simp
  moreover have "list_all2 (\<lambda>b l. link_between ns (i, nat b) l) (b # bs) (l # new)"
    using l all2 by simp
  moreover have "distinct (prevBIdxs @ (b # bs))" using dist by simp
  moreover have "\<forall>c \<in> set (b # bs). 0 \<le> c \<and> c \<noteq> int i \<and> \<not> both_EndDevice ns (i, nat c)"
    using b each by simp
  ultimately show ?thesis unfolding links_added_def by blast
qed

lemma option_sum_caseE:
  assumes "(case m of
              None \<Rightarrow> None
            | Some (Inl e) \<Rightarrow> Some (Inl e)
            | Some (Inr (x, r1)) \<Rightarrow> f x r1) = Some (Inr z)"
  obtains x r1 where "m = Some (Inr (x, r1))" and "f x r1 = Some (Inr z)"
  using assms by (auto split: option.splits sum.splits)

lemma links_loop_Inr:
  assumes "links_loop ns routes i j prevBIdxs links r = Some y"
  shows "case y of
           Inl e \<Rightarrow> True
         | Inr (links', r') \<Rightarrow>
             i < length ns \<longrightarrow> distinct prevBIdxs \<longrightarrow> links_added ns i prevBIdxs links links'"
  using assms
proof (induction rule: links_loop.raw_induct [rotated 1, consumes 1])
  case (1 links_loop' ns routes i j prevBIdxs links r y)
  obtain bound r1 where bound: "Rng_int r 0 (if length ns < 50 then 3 else 6) = (bound, r1)"
    by (cases "Rng_int r 0 (if length ns < 50 then 3 else 6)")
  show ?case
  proof (cases "int j < bound")
    case False
    with 1(2) bound have "y = Inr (links, r1)" by simp
    then show ?thesis by (simp add: links_added_refl)
  next
    case True
    obtain bIdx0 r2 where b0:
      "(if i = 0 then Rng_int r1 1 (int (length ns) - 1) else pickNodeIdx ns r1) = (bIdx0, r2)"
      by (cases "if i = 0 then Rng_int r1 1 (int (length ns) - 1) else pickNodeIdx ns r1")
    show ?thesis
    proof (cases y)
      case (Inl e)
      then show ?thesis by simp
    next
      case (Inr res)
      obtain links' r' where res: "res = (links', r')" by (cases res)
      from 1(2) bound True b0 Inr res
      have "(case target_loop ns i prevBIdxs bIdx0 r2 of
               None \<Rightarrow> None
             | Some (Inl e) \<Rightarrow> Some (Inl e)
             | Some (Inr (bIdx, r3)) \<Rightarrow>
                 (case make_link ns routes i bIdx r3 of
                    None \<Rightarrow> None
                  | Some (Inl e) \<Rightarrow> Some (Inl e)
                  | Some (Inr (l, r4)) \<Rightarrow>
                      links_loop' ns routes i (Suc j) (prevBIdxs @ [bIdx]) (links @ [l]) r4))
            = Some (Inr (links', r'))"
        by simp
      then obtain bIdx r3 l r4 where
        t: "target_loop ns i prevBIdxs bIdx0 r2 = Some (Inr (bIdx, r3))"
        and m: "make_link ns routes i bIdx r3 = Some (Inr (l, r4))"
        and rec: "links_loop' ns routes i (Suc j) (prevBIdxs @ [bIdx]) (links @ [l]) r4
                    = Some (Inr (links', r'))"
        by (elim option_sum_caseE)
      from target_loop_Inr [OF t]
      have tb: "bIdx \<noteq> int i" "bIdx \<notin> set prevBIdxs"
        and te: "node_type (ns ! i) = EndDevice
                  \<longrightarrow> (\<exists>nb. nodes_at ns bIdx = Some nb \<and> node_type nb \<noteq> EndDevice)"
        by simp_all
      from make_link_Inr [OF m]
      have mb: "0 \<le> bIdx" "nat bIdx < length ns"
        and ml: "link_source l = node_address (ns ! i)"
                "link_target l = node_address (ns ! nat bIdx)"
        by simp_all
      have notboth: "\<not> both_EndDevice ns (i, nat bIdx)"
        using te by (auto simp: both_EndDevice_def nodes_at_Some)
      show ?thesis
      proof (simp only: Inr res sum.case prod.case, intro impI)
        assume i: "i < length ns" and d: "distinct prevBIdxs"
        have lb: "link_between ns (i, nat bIdx) l"
          using i mb ml by (simp add: link_between_def)
        from 1(1) [OF rec] i d tb
        have step: "links_added ns i (prevBIdxs @ [bIdx]) (links @ [l]) links'" by simp
        show "links_added ns i prevBIdxs links links'"
          by (rule links_added_step [OF lb mb(1) tb notboth step])
      qed
    qed
  qed
qed

lemma sources_loop_Inr:
  assumes "sources_loop ns routes i n links r = Some (Inr (links', r'))"
    and "i + n \<le> length ns"
  shows "\<exists>ends new. links' = links @ new \<and> links_valid ns ends new
           \<and> (\<forall>e \<in> set ends. i \<le> fst e)"
  using assms
proof (induction n arbitrary: i links r)
  case 0
  then have "links' = links" by (simp add: gret_Inr)
  then have "links' = links @ [] \<and> links_valid ns [] [] \<and> (\<forall>e \<in> set []. i \<le> fst e)"
    by (simp add: links_valid_def)
  then show ?case by blast
next
  case (Suc n)
  from Suc.prems(1) obtain l1 r1 where
    inner: "links_loop ns routes i 0 [] links r = Some (Inr (l1, r1))"
    and outer: "sources_loop ns routes (Suc i) n l1 r1 = Some (Inr (links', r'))"
    by (auto elim: gbind_Inr)
  have i: "i < length ns" using Suc.prems(2) by simp
  from links_loop_Inr [OF inner] i have "links_added ns i [] links l1" by simp
  then obtain bs new1 where l1: "l1 = links @ new1"
    and all1: "list_all2 (\<lambda>b l. link_between ns (i, nat b) l) bs new1"
    and dist1: "distinct bs"
    and each1: "\<forall>b \<in> set bs. 0 \<le> b \<and> b \<noteq> int i \<and> \<not> both_EndDevice ns (i, nat b)"
    unfolding links_added_def by auto
  from Suc.IH [OF outer] Suc.prems(2) obtain ends2 new2 where l2: "links' = l1 @ new2"
    and valid2: "links_valid ns ends2 new2"
    and above2: "\<forall>e \<in> set ends2. Suc i \<le> fst e"
    by auto
  let ?ends1 = "map (\<lambda>b. (i, nat b)) bs"
  have inj: "inj_on (\<lambda>b. (i, nat b)) (set bs)"
  proof (rule inj_onI)
    fix x y
    assume "x \<in> set bs" and "y \<in> set bs" and "(i, nat x) = (i, nat y)"
    with each1 have "0 \<le> x" and "0 \<le> y" and "nat x = nat y" by auto
    then show "x = y" by arith
  qed
  have d1: "distinct ?ends1" using dist1 inj by (simp add: distinct_map)
  have a1: "list_all2 (link_between ns) ?ends1 new1"
    using all1 by (simp add: list_all2_map1)
  have e1: "list_all (\<lambda>e. fst e \<noteq> snd e \<and> \<not> both_EndDevice ns e) ?ends1"
    using each1 by (auto simp: list_all_iff)
  have disj: "set ?ends1 \<inter> set ends2 = {}" using above2 by auto
  have "links_valid ns (?ends1 @ ends2) (new1 @ new2)"
    using a1 d1 e1 disj valid2
    by (auto simp: links_valid_def intro: list_all2_appendI)
  moreover have "links' = links @ (new1 @ new2)" using l1 l2 by simp
  moreover have "\<forall>e \<in> set (?ends1 @ ends2). i \<le> fst e" using above2 by auto
  ultimately show ?case by blast
qed

lemma networkMap_Inr:
  assumes "networkMap env c ds routes r = Some (Inr (m, r'))"
  shows "\<exists>ends. links_valid (map_nodes m) ends (map_links m)"
proof -
  from assms obtain ns ls ra rb where
    loop: "sources_loop ns routes 0 (length ns - 1) [] ra = Some (Inr (ls, rb))"
    and m: "m = \<lparr>map_nodes = ns, map_links = ls\<rparr>"
    unfolding networkMap_def
    by (elim gbind_Inr) (simp add: gret_Inr)
  have "0 + (length ns - 1) \<le> length ns" by simp
  from sources_loop_Inr [OF loop this] m show ?thesis by auto
qed

lemma node_address_inj:
  assumes "distinct (map node_ieeeAddr ns)" and "i < length ns" and "j < length ns"
    and "node_address (ns ! i) = node_address (ns ! j)"
  shows "i = j"
proof -
  from assms(1)
  have "\<forall>i < length ns. \<forall>j < length ns.
          i \<noteq> j \<longrightarrow> node_ieeeAddr (ns ! i) \<noteq> node_ieeeAddr (ns ! j)"
    by (simp add: distinct_conv_nth)
  with assms(2,3,4) show ?thesis by (auto simp: node_address_def)
qed

lemma links_valid_addresses:
  assumes valid: "links_valid ns ends ls" and dist: "distinct (map node_ieeeAddr ns)"
  shows "list_all (\<lambda>l. link_source l \<noteq> link_target l) ls
    \<and> distinct (map (\<lambda>l. (link_source l, link_target l)) ls)
    \<and> list_all (\<lambda>l. \<not> (\<exists>a \<in> set ns. \<exists>b \<in> set ns.
                          link_source l = node_address a \<and> link_target l = node_address b
                          \<and> node_type a = EndDevice \<and> node_type b = EndDevice)) ls"
proof -
  from valid have all2: "list_all2 (link_between ns) ends ls" and d: "distinct ends"
    and each: "\<forall>e \<in> set ends. fst e \<noteq> snd e \<and> \<not> both_EndDevice ns e"
    by (simp_all add: links_valid_def list_all_iff)
  have len: "length ends = length ls" using all2 by (rule list_all2_lengthD)
  have lb: "link_between ns (ends ! k) (ls ! k)" if "k < length ls" for k
    using all2 that by (simp add: list_all2_conv_all_nth)
  have self: "link_source (ls ! k) \<noteq> link_target (ls ! k)" if k: "k < length ls" for k
  proof
    assume eq: "link_source (ls ! k) = link_target (ls ! k)"
    from lb [OF k] eq have "fst (ends ! k) = snd (ends ! k)"
      by (auto simp: link_between_def intro: node_address_inj [OF dist])
    moreover have "ends ! k \<in> set ends" using k len by simp
    ultimately show False using each by blast
  qed
  have pairs: "k = k'" if k: "k < length ls" and k': "k' < length ls"
    and eq: "(link_source (ls ! k), link_target (ls ! k))
             = (link_source (ls ! k'), link_target (ls ! k'))" for k k'
  proof -
    from lb [OF k] lb [OF k'] eq
    have "fst (ends ! k) = fst (ends ! k')" and "snd (ends ! k) = snd (ends ! k')"
      by (auto simp: link_between_def intro: node_address_inj [OF dist])
    then have "ends ! k = ends ! k'" by (simp add: prod_eq_iff)
    with d k k' len show ?thesis by (simp add: nth_eq_iff_index_eq)
  qed
  have notboth: "\<not> (\<exists>a \<in> set ns. \<exists>b \<in> set ns.
                     link_source (ls ! k) = node_address a \<and> link_target (ls ! k) = node_address b
                     \<and> node_type a = EndDevice \<and> node_type b = EndDevice)"
    if k: "k < length ls" for k
  proof
    assume "\<exists>a \<in> set ns. \<exists>b \<in> set ns.
              link_source (ls ! k) = node_address a \<and> link_target (ls ! k) = node_address b
              \<and> node_type a = EndDevice \<and> node_type b = EndDevice"
    then obtain ia ib where ia: "ia < length ns" and ib: "ib < length ns"
      and src: "link_source (ls ! k) = node_address (ns ! ia)"
      and tgt: "link_target (ls ! k) = node_address (ns ! ib)"
      and ty: "node_type (ns ! ia) = EndDevice" "node_type (ns ! ib) = EndDevice"
      by (auto simp: in_set_conv_nth)
    from lb [OF k] src ia have "fst (ends ! k) = ia"
      by (auto simp: link_between_def intro: node_address_inj [OF dist])
    moreover from lb [OF k] tgt ib have "snd (ends ! k) = ib"
      by (auto simp: link_between_def intro: node_address_inj [OF dist])
    ultimately have "both_EndDevice ns (ends ! k)" using ty by (simp add: both_EndDevice_def)
    moreover have "ends ! k \<in> set ends" using k len by simp
    ultimately show False using each by blast
  qed
  have "distinct (map (\<lambda>l. (link_source l, link_target l)) ls)"
    using pairs by (auto simp: distinct_conv_nth)
  then show ?thesis using self notboth by (auto simp: list_all_length)
qed

text \<open>
  C4: in every snapshot that \<open>snapshot\<close> returns, the first device is the coordinator
  and it is the only one; and the links of the network map are links between positions of
  the node list such that no link goes from a position to itself, no two links go from
  the same position to the same position, and no link joins two EndDevice nodes.  When
  the nodes have different IEEE addresses, the same holds of the addresses the links
  carry: source and target differ, no pair of source and target occurs twice, and no
  link carries the addresses of two EndDevice nodes.
\<close>

theorem snapshot_structure:
  assumes "snapshot env bridge deviceCount groupCount r = Some (Inr (s, r'))"
  shows "snap_devices s \<noteq> []
    \<and> dev_type (snap_devices s ! 0) = Coordinator
    \<and> filter (\<lambda>d. dev_type d = Coordinator) (snap_devices s) = [snap_devices s ! 0]
    \<and> (\<exists>ends. links_valid (map_nodes (raw_value (snap_networkMap s))) ends
                 (map_links (raw_value (snap_networkMap s))))
    \<and> (distinct (map node_ieeeAddr (map_nodes (raw_value (snap_networkMap s))))
        \<longrightarrow> list_all (\<lambda>l. link_source l \<noteq> link_target l)
              (map_links (raw_value (snap_networkMap s)))
          \<and> distinct (map (\<lambda>l. (link_source l, link_target l))
                        (map_links (raw_value (snap_networkMap s))))
          \<and> list_all (\<lambda>l. \<not> (\<exists>a \<in> set (map_nodes (raw_value (snap_networkMap s))).
                               \<exists>b \<in> set (map_nodes (raw_value (snap_networkMap s))).
                                 link_source l = node_address a \<and> link_target l = node_address b
                                 \<and> node_type a = EndDevice \<and> node_type b = EndDevice))
              (map_links (raw_value (snap_networkMap s))))"
proof -
  from assms obtain c ds ra rb rc rd nm where c: "coordinator env r = Some (Inr (c, ra))"
    and ds: "devices env deviceCount ra = Some (Inr (ds, rb))"
    and s: "snap_devices s = c # ds"
    and raw: "rawNetworkMap env c ds (Some False) rc = Some (Inr (nm, rd))"
    and nm: "snap_networkMap s = nm"
    by (rule snapshot_Inr)
  from coordinator_Inr [OF c] have ct: "dev_type c = Coordinator" by simp
  from devices_Inr [OF ds] have "\<forall>d \<in> set ds. dev_type d \<noteq> Coordinator" by auto
  then have "filter (\<lambda>d. dev_type d = Coordinator) ds = []" by (simp add: filter_empty_conv)
  with ct s have first: "snap_devices s \<noteq> [] \<and> dev_type (snap_devices s ! 0) = Coordinator
      \<and> filter (\<lambda>d. dev_type d = Coordinator) (snap_devices s) = [snap_devices s ! 0]"
    by simp
  from raw obtain m re rf where "networkMap env c ds False re = Some (Inr (m, rf))"
    and "raw_value nm = m"
    unfolding rawNetworkMap_def by (elim gbind_Inr) (auto simp: gret_Inr)
  with networkMap_Inr obtain ends where
    valid: "links_valid (map_nodes (raw_value nm)) ends (map_links (raw_value nm))"
    by blast
  from links_valid_addresses [OF valid] valid first show ?thesis
    unfolding nm by blast
qed

theorem snapshot_structure_witness:
  "snapshot sample_env (\<lambda>c ds gs. gret ()) 1 0 10
     = Some (Inr (\<lparr>snap_bridge = (),
                   snap_devices = [sample_coordinator, sample_end_device],
                   snap_groups = [],
                   snap_networkMap = sample_networkMap\<rparr>, 2512190090))
   \<and> map dev_type [sample_coordinator, sample_end_device] = [Coordinator, EndDevice]
   \<and> map (\<lambda>l. (link_source l, link_target l)) (map_links (raw_value sample_networkMap))
       = [((''0x8ebc77310fe2667e'', 0), (''0x27e3ca29e90bb9c8'', 25480))]
   \<and> distinct (map node_ieeeAddr (map_nodes (raw_value sample_networkMap)))
   \<and> (\<exists>ends. links_valid (map_nodes (raw_value sample_networkMap)) ends
                (map_links (raw_value sample_networkMap)))
   \<and> list_all (\<lambda>l. link_source l \<noteq> link_target l) (map_links (raw_value sample_networkMap))"
proof -
  have d: "distinct (map node_ieeeAddr (map_nodes (raw_value sample_networkMap)))"
    by (simp add: sample_networkMap_def)
  from snapshot_structure [OF sample_snapshot_run] d
  have "(\<exists>ends. links_valid (map_nodes (raw_value sample_networkMap)) ends
                (map_links (raw_value sample_networkMap)))
        \<and> list_all (\<lambda>l. link_source l \<noteq> link_target l) (map_links (raw_value sample_networkMap))"
    by simp
  with d show ?thesis
    by (simp add: sample_snapshot_run) (simp add: sample_coordinator_def sample_end_device_def
          sample_networkMap_def)
qed

end
